theory Spec2Isabelle
  imports Main
begin

section \<open>Errors\<close>

text \<open>
  The serializers of \<^verbatim>\<open>coderr_app/api/serializer.py\<close> raise one exception class of their
  own, \<^verbatim>\<open>serializers.ValidationError\<close>, with a message (\<open>Msg\<close>) or with a dict from a
  field name to a message (\<open>Dict\<close>). The declared fields of a serializer raise the same
  class with a dict from the field's name to the code of the failed check. Two Python
  exceptions can escape \<^verbatim>\<open>OfferSerializer.update\<close> and \<^verbatim>\<open>create\<close> uncaught:
  \<^verbatim>\<open>MultipleObjectsReturned\<close> of \<^verbatim>\<open>instance.details.get\<close>, and \<^verbatim>\<open>KeyError\<close> of a
  subscript or \<^verbatim>\<open>pop\<close> on a dict without the key.
\<close>

datatype detail = Msg string | Dict "(string \<times> string) list"

datatype error = ValidationError detail | MultipleObjectsReturned | KeyError string

text \<open>
  The error kinds of the specification's taxonomy, and the kind of each exception the
  code raises: \<^verbatim>\<open>serializers.ValidationError\<close> is the validation kind, an uncaught Python
  exception is an infrastructure error. No serializer raises an error of another kind.
\<close>

datatype kind = Validation | Authorization | NotFound | Conflict | Infrastructure

fun kind_of :: "error \<Rightarrow> kind" where
  "kind_of (ValidationError _) = Validation"
| "kind_of MultipleObjectsReturned = Infrastructure"
| "kind_of (KeyError _) = Infrastructure"

abbreviation WrongDetailCount :: error where
  "WrongDetailCount \<equiv> ValidationError (Msg ''Exactly 3 details must be provided.'')"

abbreviation DuplicateOrMissingTier :: error where
  "DuplicateOrMissingTier \<equiv> ValidationError
     (Msg ''Each offer_type (basic, standard, premium) must appear exactly once.'')"

abbreviation MissingOfferType :: error where
  "MissingOfferType \<equiv> ValidationError (Msg ''Each detail must include 'offer_type'.'')"

abbreviation DuplicateOfferType :: error where
  "DuplicateOfferType \<equiv> ValidationError (Msg ''Duplicate offer_type values are not allowed.'')"

definition DetailNotFound :: "string \<Rightarrow> error" where
  "DetailNotFound t =
     ValidationError
       (Msg (''Detail with offer_type '' @ [CHR 0x27] @ t @ [CHR 0x27] @ '' does not exist.''))"

section \<open>The stored rows\<close>

text \<open>
  Modelled from the spec: \<^verbatim>\<open>coderr_app/models.py\<close> and \<^verbatim>\<open>auth_app/models.py\<close> are not
  among the sources. The rows carry the fields the serializers name in their
  \<^verbatim>\<open>Meta.fields\<close> and read through \<^verbatim>\<open>source=\<close>, with the types of section 3 of the
  specification; timestamps are left out. A table is the list of its rows, in the order
  of their creation, and a foreign key holds the primary key of the row it points to.
  An Order, by section 3 of the specification, references its OfferDetail weakly: it
  holds a copy of the commercial terms, captured when the Order is created, and no live
  pointer. \<open>ord_offer_detail\<close> is that copy, the detail as it was at creation with its
  id; it is what the attribute \<^verbatim>\<open>offer_detail\<close> of an Order gives.
\<close>

record profile =
  p_user :: nat
  p_type :: string

record offer =
  o_id :: nat
  o_user :: nat
  o_title :: string
  o_description :: string
  o_image :: "string option"

record offer_detail =
  od_id :: nat
  od_offer :: nat
  od_title :: string
  od_revisions :: int
  od_delivery_time_in_days :: int
  od_price :: int
  od_features :: "string list"
  od_offer_type :: string

record order =
  ord_id :: nat
  ord_customer_user :: nat
  ord_business_user :: nat
  ord_status :: string
  ord_offer_detail :: offer_detail

record review =
  r_id :: nat
  r_business_user :: nat
  r_reviewer :: nat
  r_rating :: int
  r_description :: string

record store =
  users :: "nat list"
  profiles :: "profile list"
  offers :: "offer list"
  offer_details :: "offer_detail list"
  orders :: "order list"
  reviews :: "review list"

text \<open>The primary key \<^verbatim>\<open>objects.create\<close> gives a new row: one not in the table.\<close>

definition fresh :: "nat list \<Rightarrow> nat" where
  "fresh ids = Suc (fold max ids 0)"

section \<open>OfferSerializer\<close>

text \<open>
  \<^verbatim>\<open>attrs\<close> and \<^verbatim>\<open>validated_data\<close> are dicts made by the declared fields: a key is
  absent (\<open>None\<close>) or holds a value of the field's type. \<^verbatim>\<open>image\<close> is declared
  \<^verbatim>\<open>allow_null=True\<close>, so its value can itself be \<^verbatim>\<open>None\<close>.
\<close>

record detail_attrs =
  da_title :: "string option"
  da_revisions :: "int option"
  da_delivery_time_in_days :: "int option"
  da_price :: "int option"
  da_features :: "string list option"
  da_offer_type :: "string option"

record offer_attrs =
  oa_title :: "string option"
  oa_description :: "string option"
  oa_image :: "string option option"
  oa_details :: "detail_attrs list option"

definition required :: "string option set" where
  "required = {Some ''basic'', Some ''standard'', Some ''premium''}"

text \<open>
  \<^verbatim>\<open>OfferSerializer.validate\<close>. \<^verbatim>\<open>self.instance\<close> is \<open>None\<close> on create. \<^verbatim>\<open>not details\<close>
  holds for an absent key and for the empty list; \<^verbatim>\<open>d.get('offer_type')\<close> is \<open>None\<close>
  for a detail without the key.
\<close>

definition OfferSerializer_validate :: "offer option \<Rightarrow> offer_attrs \<Rightarrow> error + offer_attrs" where
  "OfferSerializer_validate instance attrs =
     (case instance of
        None \<Rightarrow>
          (case oa_details attrs of
             None \<Rightarrow> Inl WrongDetailCount
           | Some details \<Rightarrow>
               if details = [] \<or> length details \<noteq> 3 then Inl WrongDetailCount
               else
                 let types = map da_offer_type details in
                 if set types \<noteq> required \<or> length types \<noteq> card (set types)
                 then Inl DuplicateOrMissingTier
                 else Inr attrs)
      | Some _ \<Rightarrow>
          (case oa_details attrs of
             None \<Rightarrow> Inr attrs
           | Some details \<Rightarrow>
               if details = [] then Inr attrs
               else
                 let missing_offer_type = filter (\<lambda>d. da_offer_type d = None) details in
                 if missing_offer_type \<noteq> [] then Inl MissingOfferType
                 else
                   let types = map da_offer_type details in
                   if length types \<noteq> card (set types) then Inl DuplicateOfferType
                   else Inr attrs))"

text \<open>
  \<^verbatim>\<open>Offer.objects.create(**validated_data)\<close> and
  \<^verbatim>\<open>OfferDetail.objects.create(offer=offer, **detail)\<close>: a new row with a fresh primary
  key. The owner is the keyword the view hands to \<^verbatim>\<open>save\<close>. A key the dict lacks takes
  the model field's default, which \<^verbatim>\<open>models.py\<close> sets; the nested serializer of a
  create is not partial and supplies every key.
\<close>

definition Offer_objects_create :: "store \<Rightarrow> nat \<Rightarrow> offer_attrs \<Rightarrow> offer \<times> store" where
  "Offer_objects_create s owner validated_data =
     (let row = \<lparr> o_id = fresh (map o_id (offers s)), o_user = owner,
                  o_title = (case oa_title validated_data of Some t \<Rightarrow> t | None \<Rightarrow> []),
                  o_description = (case oa_description validated_data of Some t \<Rightarrow> t | None \<Rightarrow> []),
                  o_image = (case oa_image validated_data of Some i \<Rightarrow> i | None \<Rightarrow> None) \<rparr>
      in (row, s\<lparr> offers := offers s @ [row] \<rparr>))"

definition OfferDetail_objects_create :: "store \<Rightarrow> offer \<Rightarrow> detail_attrs \<Rightarrow> store" where
  "OfferDetail_objects_create s offer detail =
     (let row = \<lparr> od_id = fresh (map od_id (offer_details s)), od_offer = o_id offer,
                  od_title = (case da_title detail of Some t \<Rightarrow> t | None \<Rightarrow> []),
                  od_revisions = (case da_revisions detail of Some n \<Rightarrow> n | None \<Rightarrow> 0),
                  od_delivery_time_in_days =
                    (case da_delivery_time_in_days detail of Some n \<Rightarrow> n | None \<Rightarrow> 0),
                  od_price = (case da_price detail of Some n \<Rightarrow> n | None \<Rightarrow> 0),
                  od_features = (case da_features detail of Some fs \<Rightarrow> fs | None \<Rightarrow> []),
                  od_offer_type = (case da_offer_type detail of Some t \<Rightarrow> t | None \<Rightarrow> []) \<rparr>
      in s\<lparr> offer_details := offer_details s @ [row] \<rparr>)"

text \<open>\<^verbatim>\<open>OfferSerializer.create\<close>: \<^verbatim>\<open>pop('details')\<close> raises on a dict without the key.\<close>

definition OfferSerializer_create :: "store \<Rightarrow> nat \<Rightarrow> offer_attrs \<Rightarrow> (error + offer) \<times> store" where
  "OfferSerializer_create s owner validated_data =
     (case oa_details validated_data of
        None \<Rightarrow> (Inl (KeyError ''details''), s)
      | Some detail_data \<Rightarrow>
          (let (offer, s1) = Offer_objects_create s owner validated_data
           in (Inr offer, fold (\<lambda>detail s'. OfferDetail_objects_create s' offer detail) detail_data s1)))"

text \<open>
  \<^verbatim>\<open>instance.save()\<close> and \<^verbatim>\<open>single_detail.save()\<close>: the row with the object's primary
  key takes the object's fields; an object with no row yet is inserted.
\<close>

definition Offer_save :: "store \<Rightarrow> offer \<Rightarrow> store" where
  "Offer_save s instance =
     (if o_id instance \<in> set (map o_id (offers s))
      then s\<lparr> offers := map (\<lambda>r. if o_id r = o_id instance then instance else r) (offers s) \<rparr>
      else s\<lparr> offers := offers s @ [instance] \<rparr>)"

definition OfferDetail_save :: "store \<Rightarrow> offer_detail \<Rightarrow> store" where
  "OfferDetail_save s single_detail =
     (if od_id single_detail \<in> set (map od_id (offer_details s))
      then s\<lparr> offer_details :=
             map (\<lambda>r. if od_id r = od_id single_detail then single_detail else r) (offer_details s) \<rparr>
      else s\<lparr> offer_details := offer_details s @ [single_detail] \<rparr>)"

text \<open>\<^verbatim>\<open>instance.details\<close>: the rows whose foreign key is the instance, read from the store.\<close>

definition instance_details :: "store \<Rightarrow> offer \<Rightarrow> offer_detail list" where
  "instance_details s instance = filter (\<lambda>d. od_offer d = o_id instance) (offer_details s)"

text \<open>
  The loop \<^verbatim>\<open>for attr, value in detail.items()\<close>: every key of the patch but
  \<^verbatim>\<open>offer_type\<close> is set on the object.
\<close>

definition setattrs :: "offer_detail \<Rightarrow> detail_attrs \<Rightarrow> offer_detail" where
  "setattrs single_detail detail =
     single_detail\<lparr>
       od_title := (case da_title detail of Some v \<Rightarrow> v | None \<Rightarrow> od_title single_detail),
       od_revisions := (case da_revisions detail of Some v \<Rightarrow> v | None \<Rightarrow> od_revisions single_detail),
       od_delivery_time_in_days :=
         (case da_delivery_time_in_days detail of Some v \<Rightarrow> v
          | None \<Rightarrow> od_delivery_time_in_days single_detail),
       od_price := (case da_price detail of Some v \<Rightarrow> v | None \<Rightarrow> od_price single_detail),
       od_features := (case da_features detail of Some v \<Rightarrow> v | None \<Rightarrow> od_features single_detail) \<rparr>"

text \<open>
  The loop \<^verbatim>\<open>for detail in detail_data\<close> of \<^verbatim>\<open>OfferSerializer.update\<close>. It stops at the
  first exception, and what it saved before stays saved: the result is the exception, if
  any, and the store as the loop left it. \<^verbatim>\<open>instance.details.get(offer_type=...)\<close>
  raises \<^verbatim>\<open>DoesNotExist\<close> on no row, which the loop turns into a \<^verbatim>\<open>ValidationError\<close>,
  and \<^verbatim>\<open>MultipleObjectsReturned\<close> on several, which nothing catches.
\<close>

fun patch_details :: "store \<Rightarrow> offer \<Rightarrow> detail_attrs list \<Rightarrow> error option \<times> store" where
  "patch_details s instance [] = (None, s)"
| "patch_details s instance (detail # rest) =
     (case da_offer_type detail of
        None \<Rightarrow> (Some (KeyError ''offer_type''), s)
      | Some t \<Rightarrow>
          (case filter (\<lambda>d. od_offer_type d = t) (instance_details s instance) of
             [] \<Rightarrow> (Some (DetailNotFound t), s)
           | [single_detail] \<Rightarrow>
               patch_details (OfferDetail_save s (setattrs single_detail detail)) instance rest
           | _ \<Rightarrow> (Some MultipleObjectsReturned, s)))"

text \<open>The three assignments of \<^verbatim>\<open>OfferSerializer.update\<close> before \<^verbatim>\<open>instance.save()\<close>.\<close>

definition set_scalars :: "offer \<Rightarrow> offer_attrs \<Rightarrow> offer" where
  "set_scalars instance validated_data =
     instance\<lparr>
       o_title := (case oa_title validated_data of Some v \<Rightarrow> v | None \<Rightarrow> o_title instance),
       o_description :=
         (case oa_description validated_data of Some v \<Rightarrow> v | None \<Rightarrow> o_description instance),
       o_image := (case oa_image validated_data of Some v \<Rightarrow> v | None \<Rightarrow> o_image instance) \<rparr>"

definition OfferSerializer_update ::
  "store \<Rightarrow> offer \<Rightarrow> offer_attrs \<Rightarrow> (error + offer) \<times> store" where
  "OfferSerializer_update s instance validated_data =
     (let instance' = set_scalars instance validated_data;
          s1 = Offer_save s instance'
      in case oa_details validated_data of
           None \<Rightarrow> (Inr instance', s1)
         | Some detail_data \<Rightarrow>
             if detail_data = [] then (Inr instance', s1)
             else (case patch_details s1 instance' detail_data of
                     (None, s2) \<Rightarrow> (Inr instance', s2)
                   | (Some e, s2) \<Rightarrow> (Inl e, s2)))"

text \<open>
  A write request as the framework runs it: \<^verbatim>\<open>is_valid(raise_exception=True)\<close>, which
  calls \<^verbatim>\<open>validate\<close>, and then \<^verbatim>\<open>save\<close>, which calls \<^verbatim>\<open>create\<close> when the serializer has
  no instance and \<^verbatim>\<open>update\<close> when it has one. No call of the serializer opens a
  transaction.
\<close>

definition OfferSerializer_save ::
  "store \<Rightarrow> nat \<Rightarrow> offer option \<Rightarrow> offer_attrs \<Rightarrow> (error + offer) \<times> store" where
  "OfferSerializer_save s owner instance attrs =
     (case OfferSerializer_validate instance attrs of
        Inl e \<Rightarrow> (Inl e, s)
      | Inr validated_data \<Rightarrow>
          (case instance of
             None \<Rightarrow> OfferSerializer_create s owner validated_data
           | Some i \<Rightarrow> OfferSerializer_update s i validated_data))"

section \<open>OrderSerializer\<close>

text \<open>
  What \<^verbatim>\<open>OrderSerializer\<close> shows of an order. The six fields declared with
  \<^verbatim>\<open>source='offer_detail.<name>'\<close> are read, when the order is shown, from the attribute
  \<^verbatim>\<open>offer_detail\<close> of the order. \<^verbatim>\<open>offer_detail_id\<close> is write-only and not shown.
\<close>

record order_representation =
  rep_id :: nat
  rep_customer_user :: nat
  rep_business_user :: nat
  rep_status :: string
  rep_title :: string
  rep_revisions :: int
  rep_delivery_time_in_days :: int
  rep_price :: int
  rep_features :: "string list"
  rep_offer_type :: string

definition OrderSerializer_to_representation :: "order \<Rightarrow> order_representation" where
  "OrderSerializer_to_representation order =
     (let offer_detail = ord_offer_detail order in
      \<lparr> rep_id = ord_id order,
        rep_customer_user = ord_customer_user order,
        rep_business_user = ord_business_user order,
        rep_status = ord_status order,
        rep_title = od_title offer_detail,
        rep_revisions = od_revisions offer_detail,
        rep_delivery_time_in_days = od_delivery_time_in_days offer_detail,
        rep_price = od_price offer_detail,
        rep_features = od_features offer_detail,
        rep_offer_type = od_offer_type offer_detail \<rparr>)"

text \<open>
  Modelled from the spec: the creation of an Order is done by a view of \<^verbatim>\<open>coderr_app\<close>
  and by \<^verbatim>\<open>models.py\<close>, which are not among the sources. By section 3 of the
  specification an Order is created by a customer against a live OfferDetail, found by
  its id; the business actor is the owner of the Offer of that detail, the first status is
  \<^verbatim>\<open>pending\<close>, and the commercial terms of the detail are captured at that moment. There is
  no Order when the id names no OfferDetail.
\<close>

definition Order_create :: "store \<Rightarrow> nat \<Rightarrow> nat \<Rightarrow> order option \<times> store" where
  "Order_create s customer offer_detail_id =
     (case find (\<lambda>d. od_id d = offer_detail_id) (offer_details s) of
        None \<Rightarrow> (None, s)
      | Some offer_detail \<Rightarrow>
          (case find (\<lambda>r. o_id r = od_offer offer_detail) (offers s) of
             None \<Rightarrow> (None, s)
           | Some offer \<Rightarrow>
               (let order = \<lparr> ord_id = fresh (map ord_id (orders s)),
                              ord_customer_user = customer,
                              ord_business_user = o_user offer,
                              ord_status = ''pending'',
                              ord_offer_detail = offer_detail \<rparr>
                in (Some order, s\<lparr> orders := orders s @ [order] \<rparr>))))"

text \<open>
  The stores that later edits of offers and details lead to: any number of updates
  through \<^verbatim>\<open>OfferSerializer\<close>, whether they succeed or fail, and of saves of a detail row.
\<close>

inductive edited :: "store \<Rightarrow> store \<Rightarrow> bool" where
  edited_none: "edited s s"
| edited_update: "edited s s1 \<Longrightarrow> edited s (snd (OfferSerializer_update s1 instance validated_data))"
| edited_save: "edited s s1 \<Longrightarrow> edited s (OfferDetail_save s1 single_detail)"

section \<open>Request data and the declared fields\<close>

text \<open>
  The data of a request is a dict from keys to parsed JSON values; the model has the
  scalar values (a number with a fraction or an exponent is a Python float, and it, a
  list and an object are outside the model). \<^verbatim>\<open>map_of\<close> reads a key.
\<close>

datatype json = JNull | JBool bool | JInt int | JStr string

type_synonym data = "(string \<times> json) list"

text \<open>\<^verbatim>\<open>str(data)\<close> of a scalar.\<close>

fun digits :: "nat \<Rightarrow> string" where
  "digits n = (if n < 10 then [char_of (48 + n)] else digits (n div 10) @ [char_of (48 + n mod 10)])"

fun py_str :: "json \<Rightarrow> string" where
  "py_str JNull = ''None''"
| "py_str (JBool b) = (if b then ''True'' else ''False'')"
| "py_str (JInt n) = (if n < 0 then CHR ''-'' # digits (nat (- n)) else digits (nat n))"
| "py_str (JStr s) = s"

text \<open>
  \<^verbatim>\<open>str.strip()\<close>: the characters for which \<^verbatim>\<open>str.isspace\<close> holds, among the first 256
  code points.
\<close>

definition is_space :: "char \<Rightarrow> bool" where
  "is_space c = (of_char c \<in> {9, 10, 11, 12, 13, 28, 29, 30, 31, 32, 133, 160 :: nat})"

definition strip :: "string \<Rightarrow> string" where
  "strip s = rev (dropWhile is_space (rev (dropWhile is_space s)))"

text \<open>
  Which strings a field reads as an integer is Python's and Django's lexical rule
  (\<^verbatim>\<open>int(re_decimal.sub('', s))\<close> in \<^verbatim>\<open>IntegerField\<close>, the coercion of \<^verbatim>\<open>pk=s\<close> in a query);
  the model takes both as parameters.
\<close>

record lexical =
  int_of_str :: "string \<Rightarrow> int option"
  pk_of_str :: "string \<Rightarrow> int option"

text \<open>
  What a writable, required, non-null field makes of its key (the framework's
  \<^verbatim>\<open>validate_empty_values\<close> and \<^verbatim>\<open>run_validation\<close>): a partial update skips an absent key,
  otherwise an absent key fails with \<^verbatim>\<open>required\<close> and a null with \<^verbatim>\<open>null\<close>; any other
  value goes to the field's own conversion and validators, which give the code of the
  failed check or the validated value.
\<close>

datatype 'a outcome = Skip | Fail string | Value 'a

fun run_field :: "bool \<Rightarrow> (json \<Rightarrow> string + 'a) \<Rightarrow> json option \<Rightarrow> 'a outcome" where
  "run_field partial field None = (if partial then Skip else Fail ''required'')"
| "run_field partial field (Some JNull) = Fail ''null''"
| "run_field partial field (Some v) = (case field v of Inl code \<Rightarrow> Fail code | Inr x \<Rightarrow> Value x)"

fun field_errors :: "string \<Rightarrow> 'a outcome \<Rightarrow> (string \<times> string) list" where
  "field_errors name (Fail code) = [(name, code)]"
| "field_errors name _ = []"

fun value_of :: "'a outcome \<Rightarrow> 'a option" where
  "value_of (Value x) = Some x"
| "value_of _ = None"

text \<open>
  \<^verbatim>\<open>serializers.IntegerField(min_value=..., max_value=...)\<close>: the conversion, then the
  validators of the two bounds.
\<close>

definition bounds :: "int option \<Rightarrow> int option \<Rightarrow> int \<Rightarrow> string + int" where
  "bounds min_value max_value n =
     (if (case max_value of Some hi \<Rightarrow> hi < n | None \<Rightarrow> False) then Inl ''max_value''
      else if (case min_value of Some lo \<Rightarrow> n < lo | None \<Rightarrow> False) then Inl ''min_value''
      else Inr n)"

fun IntegerField :: "lexical \<Rightarrow> int option \<Rightarrow> int option \<Rightarrow> json \<Rightarrow> string + int" where
  "IntegerField lx min_value max_value (JInt n) = bounds min_value max_value n"
| "IntegerField lx min_value max_value (JStr s) =
     (if length s > 1000 then Inl ''max_string_length''
      else case int_of_str lx s of
             None \<Rightarrow> Inl ''invalid''
           | Some n \<Rightarrow> bounds min_value max_value n)"
| "IntegerField lx min_value max_value _ = Inl ''invalid''"

text \<open>
  \<^verbatim>\<open>serializers.CharField()\<close>: \<^verbatim>\<open>allow_blank\<close> is false and \<^verbatim>\<open>trim_whitespace\<close> is true
  by default, so a value whose \<^verbatim>\<open>str\<close> is empty once stripped fails with \<^verbatim>\<open>blank\<close>, before
  anything else; a boolean is no string; the value is the stripped string, and the
  field's validator refuses one with a null character.
\<close>

definition CharField :: "json \<Rightarrow> string + string" where
  "CharField v =
     (if strip (py_str v) = [] then Inl ''blank''
      else case v of
             JBool _ \<Rightarrow> Inl ''invalid''
           | _ \<Rightarrow> (if CHR 0x00 \<in> set (strip (py_str v)) then Inl ''null_characters_not_allowed''
                   else Inr (strip (py_str v))))"

text \<open>\<^verbatim>\<open>serializers.ChoiceField(choices=...)\<close>: \<^verbatim>\<open>str(data)\<close> is looked up among the choices.\<close>

definition ChoiceField :: "string list \<Rightarrow> json \<Rightarrow> string + string" where
  "ChoiceField choices v =
     (if py_str v \<in> set choices then Inr (py_str v) else Inl ''invalid_choice'')"

text \<open>
  \<^verbatim>\<open>serializers.PrimaryKeyRelatedField(queryset=User.objects.all())\<close>: the user with that
  primary key. A relational field takes the empty string for \<^verbatim>\<open>None\<close>, which a field that
  is not nullable refuses with \<^verbatim>\<open>null\<close>; a boolean is of the wrong type.
\<close>

definition user_with_pk :: "nat list \<Rightarrow> int \<Rightarrow> string + nat" where
  "user_with_pk queryset n =
     (if 0 \<le> n \<and> nat n \<in> set queryset then Inr (nat n) else Inl ''does_not_exist'')"

fun PrimaryKeyRelatedField :: "lexical \<Rightarrow> nat list \<Rightarrow> json \<Rightarrow> string + nat" where
  "PrimaryKeyRelatedField lx queryset (JInt n) = user_with_pk queryset n"
| "PrimaryKeyRelatedField lx queryset (JStr s) =
     (if s = [] then Inl ''null''
      else case pk_of_str lx s of
             None \<Rightarrow> Inl ''incorrect_type''
           | Some n \<Rightarrow> user_with_pk queryset n)"
| "PrimaryKeyRelatedField lx queryset _ = Inl ''incorrect_type''"

section \<open>OrderStatusUpdateSerializer\<close>

text \<open>
  The fields of \<^verbatim>\<open>OrderStatusUpdateSerializer\<close>: \<^verbatim>\<open>status\<close> is declared as a
  \<^verbatim>\<open>ChoiceField\<close>; \<^verbatim>\<open>customer_user\<close>, \<^verbatim>\<open>business_user\<close>, \<^verbatim>\<open>title\<close>, \<^verbatim>\<open>revisions\<close>,
  \<^verbatim>\<open>delivery_time_in_days\<close>, \<^verbatim>\<open>price\<close>, \<^verbatim>\<open>features\<close> and \<^verbatim>\<open>offer_type\<close> are declared with
  \<^verbatim>\<open>read_only=True\<close> in \<^verbatim>\<open>OrderSerializer\<close>; \<^verbatim>\<open>id\<close>, \<^verbatim>\<open>created_at\<close> and \<^verbatim>\<open>updated_at\<close> are in
  \<^verbatim>\<open>Meta.read_only_fields\<close>; \<^verbatim>\<open>offer_detail_id\<close> is not in \<^verbatim>\<open>Meta.fields\<close>. The framework
  builds \<^verbatim>\<open>attrs\<close> from the writable fields only, so from \<^verbatim>\<open>status\<close>: a read-only field
  and a key that names no field are not read from the request. The choices are
  \<^verbatim>\<open>Order.STATUS_CHOICES\<close> of \<^verbatim>\<open>models.py\<close>, a parameter here.
\<close>

definition OrderStatusUpdateSerializer_to_internal_value ::
  "string list \<Rightarrow> bool \<Rightarrow> data \<Rightarrow> error + data" where
  "OrderStatusUpdateSerializer_to_internal_value STATUS_CHOICES partial request_data =
     (case run_field partial (ChoiceField STATUS_CHOICES) (map_of request_data ''status'') of
        Fail code \<Rightarrow> Inl (ValidationError (Dict [(''status'', code)]))
      | Skip \<Rightarrow> Inr []
      | Value v \<Rightarrow> Inr [(''status'', JStr v)])"

fun join :: "string \<Rightarrow> string list \<Rightarrow> string" where
  "join sep [] = []"
| "join sep [x] = x"
| "join sep (x # y # ys) = x @ sep @ join sep (y # ys)"

text \<open>
  \<^verbatim>\<open>OrderStatusUpdateSerializer.validate\<close>. \<^verbatim>\<open>forbidden\<close> is a Python set, joined in the
  order of its iteration; the model lists the names in the order of the dict's keys.
\<close>

definition OrderStatusUpdateSerializer_validate :: "data \<Rightarrow> error + data" where
  "OrderStatusUpdateSerializer_validate attrs =
     (let forbidden = filter (\<lambda>k. k \<noteq> ''status'') (remdups (map fst attrs)) in
      if forbidden \<noteq> []
      then Inl (ValidationError (Msg (''Forbidden fields: '' @ join '', '' forbidden)))
      else if attrs = [] then Inl (ValidationError (Msg ''No data provided.''))
      else Inr attrs)"

definition OrderStatusUpdateSerializer_run_validation ::
  "string list \<Rightarrow> bool \<Rightarrow> data \<Rightarrow> error + data" where
  "OrderStatusUpdateSerializer_run_validation STATUS_CHOICES partial request_data =
     (case OrderStatusUpdateSerializer_to_internal_value STATUS_CHOICES partial request_data of
        Inl e \<Rightarrow> Inl e
      | Inr attrs \<Rightarrow> OrderStatusUpdateSerializer_validate attrs)"

text \<open>
  The update of the framework's \<^verbatim>\<open>ModelSerializer\<close>, which the class inherits: each key
  of the validated data is set on the order, and the order is saved.
\<close>

definition Order_save :: "store \<Rightarrow> order \<Rightarrow> store" where
  "Order_save s instance =
     (if ord_id instance \<in> set (map ord_id (orders s))
      then s\<lparr> orders := map (\<lambda>r. if ord_id r = ord_id instance then instance else r) (orders s) \<rparr>
      else s\<lparr> orders := orders s @ [instance] \<rparr>)"

definition OrderStatusUpdateSerializer_save ::
  "string list \<Rightarrow> store \<Rightarrow> order \<Rightarrow> bool \<Rightarrow> data \<Rightarrow> (error + order) \<times> store" where
  "OrderStatusUpdateSerializer_save STATUS_CHOICES s instance partial request_data =
     (case OrderStatusUpdateSerializer_run_validation STATUS_CHOICES partial request_data of
        Inl e \<Rightarrow> (Inl e, s)
      | Inr validated_data \<Rightarrow>
          (let instance' =
                 (case map_of validated_data ''status'' of
                    Some v \<Rightarrow> instance\<lparr> ord_status := py_str v \<rparr>
                  | None \<Rightarrow> instance)
           in (Inr instance', Order_save s instance')))"

section \<open>ReviewSerializer and ReviewPatchSerializer\<close>

text \<open>
  The validated data of a review: \<^verbatim>\<open>business_user\<close> is the user object the related
  field found (its primary key here), \<^verbatim>\<open>rating\<close> and \<^verbatim>\<open>description\<close> the values of
  their fields. \<^verbatim>\<open>reviewer\<close> is declared \<^verbatim>\<open>read_only=True\<close> and never part of it.
  \<^verbatim>\<open>ReviewPatchSerializer\<close> inherits the four declared fields; its
  \<^verbatim>\<open>Meta.read_only_fields\<close> names \<^verbatim>\<open>business_user\<close>, which the framework applies to
  the fields it generates from the model and not to a field the class declares, so
  \<^verbatim>\<open>business_user\<close> stays a writable field of both serializers.
\<close>

record review_attrs =
  ra_business_user :: "nat option"
  ra_rating :: "int option"
  ra_description :: "string option"

definition ReviewSerializer_to_internal_value ::
  "lexical \<Rightarrow> store \<Rightarrow> bool \<Rightarrow> data \<Rightarrow> error + review_attrs" where
  "ReviewSerializer_to_internal_value lx s partial request_data =
     (let business_user =
            run_field partial (PrimaryKeyRelatedField lx (users s)) (map_of request_data ''business_user'');
          rating = run_field partial (IntegerField lx (Some 1) (Some 5)) (map_of request_data ''rating'');
          description = run_field partial CharField (map_of request_data ''description'');
          errors = field_errors ''business_user'' business_user @ field_errors ''rating'' rating
                   @ field_errors ''description'' description
      in if errors \<noteq> [] then Inl (ValidationError (Dict errors))
         else Inr \<lparr> ra_business_user = value_of business_user, ra_rating = value_of rating,
                    ra_description = value_of description \<rparr>)"

abbreviation TargetNotBusiness :: error where
  "TargetNotBusiness \<equiv> ValidationError (Dict [(''business_user'', ''Must be a business profile.'')])"

abbreviation DuplicateReview :: error where
  "DuplicateReview \<equiv> ValidationError (Msg ''You have already reviewed this business user.'')"

text \<open>
  \<^verbatim>\<open>hasattr(business_user, "profile")\<close> and \<^verbatim>\<open>business_user.profile.type\<close>: the profile
  row of the user, if there is one; \<^verbatim>\<open>None\<close> has no profile.
\<close>

definition user_profile :: "store \<Rightarrow> nat \<Rightarrow> profile option" where
  "user_profile s u = find (\<lambda>p. p_user p = u) (profiles s)"

text \<open>
  \<^verbatim>\<open>ReviewSerializer.validate\<close>. \<open>user\<close> is \<^verbatim>\<open>getattr(request, "user", None)\<close>: \<open>None\<close>
  when the context has no request or the request no user, else the authenticated user
  (which requests reach the serializer is the view's permission classes' matter, and the
  views of \<^verbatim>\<open>coderr_app\<close> are not among the sources).
\<close>

definition ReviewSerializer_validate ::
  "store \<Rightarrow> nat option \<Rightarrow> review_attrs \<Rightarrow> error + review_attrs" where
  "ReviewSerializer_validate s user attrs =
     (let business_user = ra_business_user attrs in
      if (case business_user of
            None \<Rightarrow> True
          | Some b \<Rightarrow> (case user_profile s b of
                        None \<Rightarrow> True
                      | Some p \<Rightarrow> p_type p \<noteq> ''business''))
      then Inl TargetNotBusiness
      else if (case user of
                 None \<Rightarrow> False
               | Some u \<Rightarrow> filter (\<lambda>r. r_reviewer r = u \<and> Some (r_business_user r) = business_user)
                             (reviews s) \<noteq> [])
      then Inl DuplicateReview
      else Inr attrs)"

definition ReviewSerializer_run_validation ::
  "lexical \<Rightarrow> store \<Rightarrow> nat option \<Rightarrow> bool \<Rightarrow> data \<Rightarrow> error + review_attrs" where
  "ReviewSerializer_run_validation lx s user partial request_data =
     (case ReviewSerializer_to_internal_value lx s partial request_data of
        Inl e \<Rightarrow> Inl e
      | Inr attrs \<Rightarrow> ReviewSerializer_validate s user attrs)"

text \<open>
  \<^verbatim>\<open>ReviewPatchSerializer.validate\<close>. \<^verbatim>\<open>self.initial_data\<close> is the data of the request;
  it is \<open>None\<close> here when the serializer was given none or when it is no dict.
\<close>

definition ReviewPatchSerializer_validate ::
  "data option \<Rightarrow> review_attrs \<Rightarrow> error + review_attrs" where
  "ReviewPatchSerializer_validate initial_data attrs =
     (case initial_data of
        None \<Rightarrow> Inr attrs
      | Some d \<Rightarrow>
          (let forbidden = filter (\<lambda>k. k \<in> set (map fst d)) [''business_user'', ''reviewer''] in
           if forbidden \<noteq> []
           then Inl (ValidationError
                  (Dict [(''non_field_errors'', ''Forbidden fields: '' @ join '', '' forbidden)]))
           else Inr attrs))"

definition ReviewPatchSerializer_run_validation ::
  "lexical \<Rightarrow> store \<Rightarrow> bool \<Rightarrow> data \<Rightarrow> error + review_attrs" where
  "ReviewPatchSerializer_run_validation lx s partial request_data =
     (case ReviewSerializer_to_internal_value lx s partial request_data of
        Inl e \<Rightarrow> Inl e
      | Inr attrs \<Rightarrow> ReviewPatchSerializer_validate (Some request_data) attrs)"

text \<open>
  The create and the update of the framework's \<^verbatim>\<open>ModelSerializer\<close>, which both classes
  inherit: \<^verbatim>\<open>Review.objects.create(**validated_data)\<close>, the reviewer being the keyword the
  view hands to \<^verbatim>\<open>save\<close>; and each key of the validated data set on the review, which is
  then saved. A request is \<^verbatim>\<open>is_valid(raise_exception=True)\<close> and then \<^verbatim>\<open>save\<close>.
\<close>

definition Review_objects_create :: "store \<Rightarrow> nat \<Rightarrow> review_attrs \<Rightarrow> review \<times> store" where
  "Review_objects_create s reviewer validated_data =
     (let row = \<lparr> r_id = fresh (map r_id (reviews s)),
                  r_business_user = (case ra_business_user validated_data of Some b \<Rightarrow> b | None \<Rightarrow> 0),
                  r_reviewer = reviewer,
                  r_rating = (case ra_rating validated_data of Some n \<Rightarrow> n | None \<Rightarrow> 0),
                  r_description = (case ra_description validated_data of Some d \<Rightarrow> d | None \<Rightarrow> []) \<rparr>
      in (row, s\<lparr> reviews := reviews s @ [row] \<rparr>))"

definition Review_save :: "store \<Rightarrow> review \<Rightarrow> store" where
  "Review_save s instance =
     (if r_id instance \<in> set (map r_id (reviews s))
      then s\<lparr> reviews := map (\<lambda>r. if r_id r = r_id instance then instance else r) (reviews s) \<rparr>
      else s\<lparr> reviews := reviews s @ [instance] \<rparr>)"

definition ReviewSerializer_save ::
  "lexical \<Rightarrow> store \<Rightarrow> nat option \<Rightarrow> nat \<Rightarrow> data \<Rightarrow> (error + review) \<times> store" where
  "ReviewSerializer_save lx s user reviewer request_data =
     (case ReviewSerializer_run_validation lx s user False request_data of
        Inl e \<Rightarrow> (Inl e, s)
      | Inr validated_data \<Rightarrow>
          (let (row, s') = Review_objects_create s reviewer validated_data in (Inr row, s')))"

definition review_setattrs :: "review \<Rightarrow> review_attrs \<Rightarrow> review" where
  "review_setattrs instance validated_data =
     instance\<lparr>
       r_business_user :=
         (case ra_business_user validated_data of Some b \<Rightarrow> b | None \<Rightarrow> r_business_user instance),
       r_rating := (case ra_rating validated_data of Some n \<Rightarrow> n | None \<Rightarrow> r_rating instance),
       r_description :=
         (case ra_description validated_data of Some d \<Rightarrow> d | None \<Rightarrow> r_description instance) \<rparr>"

definition ReviewPatchSerializer_save ::
  "lexical \<Rightarrow> store \<Rightarrow> review \<Rightarrow> bool \<Rightarrow> data \<Rightarrow> (error + review) \<times> store" where
  "ReviewPatchSerializer_save lx s instance partial request_data =
     (case ReviewPatchSerializer_run_validation lx s partial request_data of
        Inl e \<Rightarrow> (Inl e, s)
      | Inr validated_data \<Rightarrow>
          (let instance' = review_setattrs instance validated_data
           in (Inr instance', Review_save s instance')))"

section \<open>What identifies a detail row\<close>

text \<open>
  The primary key of an OfferDetail row, the offer it belongs to and its tier. A table
  has one row for each primary key.
\<close>

definition od_key :: "offer_detail \<Rightarrow> nat \<times> nat \<times> string" where
  "od_key d = (od_id d, od_offer d, od_offer_type d)"

section \<open>Example data\<close>

definition tier :: "string \<Rightarrow> int \<Rightarrow> detail_attrs" where
  "tier t price =
     \<lparr> da_title = Some ''Logo'', da_revisions = Some 2, da_delivery_time_in_days = Some 5,
       da_price = Some price, da_features = Some [''Logo''], da_offer_type = Some t \<rparr>"

definition offer_with :: "detail_attrs list \<Rightarrow> offer_attrs" where
  "offer_with ds =
     \<lparr> oa_title = Some ''Design'', oa_description = Some ''A logo'', oa_image = None,
       oa_details = Some ds \<rparr>"

definition empty_store :: store where
  "empty_store = \<lparr> users = [], profiles = [], offers = [], offer_details = [], orders = [], reviews = [] \<rparr>"

definition offer1 :: offer where
  "offer1 = \<lparr> o_id = 1, o_user = 1, o_title = ''Design'', o_description = ''A logo'', o_image = None \<rparr>"

definition detail_row :: "nat \<Rightarrow> string \<Rightarrow> int \<Rightarrow> offer_detail" where
  "detail_row i t price =
     \<lparr> od_id = i, od_offer = 1, od_title = ''Logo'', od_revisions = 2, od_delivery_time_in_days = 5,
       od_price = price, od_features = [''Logo''], od_offer_type = t \<rparr>"

definition order1 :: order where
  "order1 = \<lparr> ord_id = 1, ord_customer_user = 2, ord_business_user = 1, ord_status = ''pending'',
              ord_offer_detail = detail_row 1 ''basic'' 100 \<rparr>"

definition store1 :: store where
  "store1 =
     \<lparr> users = [1, 2],
       profiles = [\<lparr> p_user = 1, p_type = ''business'' \<rparr>, \<lparr> p_user = 2, p_type = ''customer'' \<rparr>],
       offers = [offer1],
       offer_details = [detail_row 1 ''basic'' 100, detail_row 2 ''standard'' 200,
                        detail_row 3 ''premium'' 500],
       orders = [order1], reviews = [] \<rparr>"

definition store_without_basic :: store where
  "store_without_basic =
     store1\<lparr> offer_details := [detail_row 2 ''standard'' 200, detail_row 3 ''premium'' 500],
             orders := [] \<rparr>"

definition patch :: "string \<Rightarrow> int \<Rightarrow> detail_attrs" where
  "patch t price =
     \<lparr> da_title = None, da_revisions = None, da_delivery_time_in_days = None,
       da_price = Some price, da_features = None, da_offer_type = Some t \<rparr>"

definition update_attrs :: "string option \<Rightarrow> detail_attrs list \<Rightarrow> offer_attrs" where
  "update_attrs title ps =
     \<lparr> oa_title = title, oa_description = None, oa_image = None, oa_details = Some ps \<rparr>"

text \<open>
  The four status labels of the specification, for \<^verbatim>\<open>Order.STATUS_CHOICES\<close>.
\<close>

definition STATUS_CHOICES :: "string list" where
  "STATUS_CHOICES = [''pending'', ''in_progress'', ''completed'', ''cancelled'']"

definition order2 :: order where
  "order2 = \<lparr> ord_id = 2, ord_customer_user = 2, ord_business_user = 1, ord_status = ''pending'',
              ord_offer_detail = detail_row 1 ''basic'' 100 \<rparr>"

text \<open>
  The requests of the examples give their numbers as JSON numbers; \<open>lexical0\<close> reads no
  string as a number.
\<close>

definition lexical0 :: lexical where
  "lexical0 = \<lparr> int_of_str = (\<lambda>_. None), pk_of_str = (\<lambda>_. None) \<rparr>"

definition review1 :: review where
  "review1 = \<lparr> r_id = 1, r_business_user = 1, r_reviewer = 2, r_rating = 4, r_description = ''Good'' \<rparr>"

definition store_reviewed :: store where
  "store_reviewed = store1\<lparr> reviews := [review1] \<rparr>"

definition review_data :: "int \<Rightarrow> int \<Rightarrow> string \<Rightarrow> data" where
  "review_data b n t = [(''business_user'', JInt b), (''rating'', JInt n), (''description'', JStr t)]"

section \<open>Properties of OfferSerializer.validate and create\<close>

lemma create_details:
  "\<exists>rows. offer_details (fold (\<lambda>detail s'. OfferDetail_objects_create s' offer detail) ds s1)
            = offer_details s1 @ rows
        \<and> map od_offer_type rows = map (\<lambda>d. case da_offer_type d of Some t \<Rightarrow> t | None \<Rightarrow> []) ds
        \<and> map od_offer rows = map (\<lambda>d. o_id offer) ds
        \<and> offers (fold (\<lambda>detail s'. OfferDetail_objects_create s' offer detail) ds s1) = offers s1"
proof (induction ds arbitrary: s1)
  case Nil
  then show ?case by simp
next
  case (Cons d ds)
  let ?s2 = "OfferDetail_objects_create s1 offer d"
  obtain rows where r:
    "offer_details (fold (\<lambda>detail s'. OfferDetail_objects_create s' offer detail) ds ?s2)
       = offer_details ?s2 @ rows"
    "map od_offer_type rows = map (\<lambda>d. case da_offer_type d of Some t \<Rightarrow> t | None \<Rightarrow> []) ds"
    "map od_offer rows = map (\<lambda>d. o_id offer) ds"
    "offers (fold (\<lambda>detail s'. OfferDetail_objects_create s' offer detail) ds ?s2) = offers ?s2"
    using Cons.IH [of ?s2] by blast
  obtain row where row: "offer_details ?s2 = offer_details s1 @ [row]"
    "od_offer_type row = (case da_offer_type d of Some t \<Rightarrow> t | None \<Rightarrow> [])"
    "od_offer row = o_id offer" "offers ?s2 = offers s1"
    by (simp add: OfferDetail_objects_create_def Let_def)
  show ?case
    apply (rule exI [of _ "row # rows"])
    using r row by simp
qed


lemma three_tiers:
  assumes "length (ts :: string option list) = 3"
  shows "(set ts = required \<and> length ts = card (set ts)) \<longleftrightarrow> (set ts = required)"
proof -
  have "card required = 3" by (simp add: required_def)
  then show ?thesis using assms by auto
qed

lemma validate_create_ok_iff:
  "OfferSerializer_validate None attrs = Inr attrs \<longleftrightarrow>
     (\<exists>ds. oa_details attrs = Some ds \<and> length ds = 3
        \<and> set (map da_offer_type ds) = {Some ''basic'', Some ''standard'', Some ''premium''})"
proof (cases "oa_details attrs")
  case None
  then show ?thesis by (simp add: OfferSerializer_validate_def)
next
  case (Some ds)
  show ?thesis
  proof (cases "length ds = 3")
    case False
    then show ?thesis using Some by (simp add: OfferSerializer_validate_def)
  next
    case True
    then have "ds \<noteq> []" by auto
    moreover have "length (map da_offer_type ds) = 3" using True by simp
    ultimately show ?thesis
      using Some True three_tiers [of "map da_offer_type ds"]
      by (auto simp add: OfferSerializer_validate_def Let_def required_def simp del: set_map)
  qed
qed

lemma validate_create_cases:
  "OfferSerializer_validate None attrs \<in> {Inr attrs, Inl WrongDetailCount, Inl DuplicateOrMissingTier}"
  by (simp add: OfferSerializer_validate_def Let_def split: option.splits)

lemma save_create_rejected:
  "OfferSerializer_validate None attrs = Inl e \<Longrightarrow> OfferSerializer_save s owner None attrs = (Inl e, s)"
  by (simp add: OfferSerializer_save_def)

lemma save_create_accepted:
  assumes "OfferSerializer_validate None attrs = Inr attrs"
  shows "\<exists>offer s' rows. OfferSerializer_save s owner None attrs = (Inr offer, s')
           \<and> offers s' = offers s @ [offer]
           \<and> offer_details s' = offer_details s @ rows
           \<and> length rows = 3
           \<and> set (map od_offer_type rows) = {''basic'', ''standard'', ''premium''}
           \<and> set (map od_offer rows) = {o_id offer}"
proof -
  let ?g = "\<lambda>x. case x of Some t \<Rightarrow> t | None \<Rightarrow> []"
  obtain ds where ds: "oa_details attrs = Some ds" "length ds = 3"
    "set (map da_offer_type ds) = {Some ''basic'', Some ''standard'', Some ''premium''}"
    using assms validate_create_ok_iff by blast
  obtain offer s1 where c: "Offer_objects_create s owner attrs = (offer, s1)"
    "offers s1 = offers s @ [offer]" "offer_details s1 = offer_details s"
    by (simp add: Offer_objects_create_def Let_def)
  let ?s' = "fold (\<lambda>detail s'. OfferDetail_objects_create s' offer detail) ds s1"
  obtain rows where rows: "offer_details ?s' = offer_details s1 @ rows"
    "map od_offer_type rows = map (\<lambda>d. ?g (da_offer_type d)) ds"
    "map od_offer rows = map (\<lambda>d. o_id offer) ds" "offers ?s' = offers s1"
    using create_details [of offer ds s1] by blast
  have "OfferSerializer_save s owner None attrs = (Inr offer, ?s')"
    using assms ds(1) c(1) by (simp add: OfferSerializer_save_def OfferSerializer_create_def)
  moreover have "length rows = 3"
    using rows(3) ds(2) by (metis length_map)
  moreover have "set (map od_offer_type rows) = {''basic'', ''standard'', ''premium''}"
  proof -
    have "set (map od_offer_type rows) = ?g ` set (map da_offer_type ds)"
      using rows(2) by (simp add: image_image)
    then show ?thesis using ds(3) by simp
  qed
  moreover have "set (map od_offer rows) = {o_id offer}"
  proof -
    have "set (map od_offer rows) = (\<lambda>d. o_id offer) ` set ds"
      using rows(3) by (metis set_map)
    moreover have "ds \<noteq> []" using ds(2) by auto
    ultimately show ?thesis by (cases ds) auto
  qed
  ultimately show ?thesis using c(2,3) rows(1,4) by simp
qed

lemma tiers_distinct:
  assumes "length (ts :: string option list) = 3" "set ts = required"
  shows "distinct ts"
proof -
  have "card (set ts) = 3" using assms(2) by (simp add: required_def)
  then show ?thesis using assms(1) by (simp add: card_distinct)
qed

lemma tier_type [simp]: "da_offer_type (tier t p) = Some t"
  by (simp add: tier_def)

lemma offer_with_details [simp]: "oa_details (offer_with ds) = Some ds"
  by (simp add: offer_with_def)

text \<open>
  Claim C1. On create, \<^verbatim>\<open>validate\<close> accepts exactly when \<^verbatim>\<open>details\<close> has three entries
  whose \<^verbatim>\<open>offer_type\<close> values are basic, standard and premium, each once. Any other
  list is rejected with the message of the wrong count or with the message of the
  duplicate or missing tier, and then the request leaves the store as it was: no Offer
  and no OfferDetail row is written. An accepted request writes one Offer row and three
  OfferDetail rows of that offer, one of each tier.
\<close>

theorem OfferSerializer_create_three_tiers:
  "(OfferSerializer_validate None attrs = Inr attrs \<longleftrightarrow>
      (\<exists>ds. oa_details attrs = Some ds \<and> length ds = 3 \<and> distinct (map da_offer_type ds)
         \<and> set (map da_offer_type ds) = {Some ''basic'', Some ''standard'', Some ''premium''}))
   \<and> OfferSerializer_validate None attrs
        \<in> {Inr attrs, Inl WrongDetailCount, Inl DuplicateOrMissingTier}
   \<and> (\<forall>e. OfferSerializer_validate None attrs = Inl e \<longrightarrow>
          OfferSerializer_save s owner None attrs = (Inl e, s))
   \<and> (OfferSerializer_validate None attrs = Inr attrs \<longrightarrow>
        (\<exists>offer s' rows. OfferSerializer_save s owner None attrs = (Inr offer, s')
           \<and> offers s' = offers s @ [offer]
           \<and> offer_details s' = offer_details s @ rows
           \<and> length rows = 3
           \<and> set (map od_offer_type rows) = {''basic'', ''standard'', ''premium''}
           \<and> set (map od_offer rows) = {o_id offer}))"
proof (intro conjI allI impI)
  define P where "P ds \<longleftrightarrow> set (map da_offer_type ds) = required" for ds :: "detail_attrs list"
  have d: "distinct (map da_offer_type ds)" if "length ds = 3" "P ds" for ds
    using that tiers_distinct [of "map da_offer_type ds"] by (simp add: P_def)
  have "OfferSerializer_validate None attrs = Inr attrs \<longleftrightarrow>
          (\<exists>ds. oa_details attrs = Some ds \<and> length ds = 3 \<and> P ds)"
    unfolding P_def required_def by (rule validate_create_ok_iff)
  also have "\<dots> \<longleftrightarrow> (\<exists>ds. oa_details attrs = Some ds \<and> length ds = 3
                       \<and> distinct (map da_offer_type ds) \<and> P ds)"
    using d by blast
  finally show "OfferSerializer_validate None attrs = Inr attrs \<longleftrightarrow>
      (\<exists>ds. oa_details attrs = Some ds \<and> length ds = 3 \<and> distinct (map da_offer_type ds)
         \<and> set (map da_offer_type ds) = {Some ''basic'', Some ''standard'', Some ''premium''})"
    unfolding P_def required_def .
next
  show "OfferSerializer_validate None attrs
          \<in> {Inr attrs, Inl WrongDetailCount, Inl DuplicateOrMissingTier}"
    by (rule validate_create_cases)
next
  fix e assume "OfferSerializer_validate None attrs = Inl e"
  then show "OfferSerializer_save s owner None attrs = (Inl e, s)"
    by (rule save_create_rejected)
next
  assume "OfferSerializer_validate None attrs = Inr attrs"
  then show "\<exists>offer s' rows. OfferSerializer_save s owner None attrs = (Inr offer, s')
           \<and> offers s' = offers s @ [offer]
           \<and> offer_details s' = offer_details s @ rows
           \<and> length rows = 3
           \<and> set (map od_offer_type rows) = {''basic'', ''standard'', ''premium''}
           \<and> set (map od_offer rows) = {o_id offer}"
    by (rule save_create_accepted)
qed

theorem OfferSerializer_create_three_tiers_witness:
  "OfferSerializer_validate None
       (offer_with [tier ''basic'' 100, tier ''standard'' 200, tier ''premium'' 500])
     = Inr (offer_with [tier ''basic'' 100, tier ''standard'' 200, tier ''premium'' 500])
   \<and> OfferSerializer_save empty_store 1 None
        (offer_with [tier ''basic'' 100, tier ''basic'' 200, tier ''premium'' 500])
     = (Inl DuplicateOrMissingTier, empty_store)
   \<and> OfferSerializer_save empty_store 1 None (offer_with [tier ''basic'' 100, tier ''standard'' 200])
     = (Inl WrongDetailCount, empty_store)"
proof (intro conjI)
  let ?good = "offer_with [tier ''basic'' 100, tier ''standard'' 200, tier ''premium'' 500]"
  let ?dup = "offer_with [tier ''basic'' 100, tier ''basic'' 200, tier ''premium'' 500]"
  let ?two = "offer_with [tier ''basic'' 100, tier ''standard'' 200]"
  have "\<exists>ds. oa_details ?good = Some ds \<and> length ds = 3 \<and> distinct (map da_offer_type ds)
         \<and> set (map da_offer_type ds) = {Some ''basic'', Some ''standard'', Some ''premium''}"
    by (rule exI [of _ "[tier ''basic'' 100, tier ''standard'' 200, tier ''premium'' 500]"]) simp
  then show "OfferSerializer_validate None ?good = Inr ?good"
    using OfferSerializer_create_three_tiers [of ?good empty_store 1, THEN conjunct1] by (rule iffD2 [rotated])
  have "set (map da_offer_type [tier ''basic'' 100, tier ''basic'' 200, tier ''premium'' 500]) \<noteq> required"
  proof
    assume "set (map da_offer_type [tier ''basic'' 100, tier ''basic'' 200, tier ''premium'' 500]) = required"
    then have "Some ''standard'' \<in> set (map da_offer_type [tier ''basic'' 100, tier ''basic'' 200, tier ''premium'' 500])"
      by (simp only: required_def insert_iff simp_thms)
    then show False by simp
  qed
  then have d: "OfferSerializer_validate None ?dup = Inl DuplicateOrMissingTier"
    by (simp add: OfferSerializer_validate_def Let_def del: set_map list.map)
  show "OfferSerializer_save empty_store 1 None ?dup = (Inl DuplicateOrMissingTier, empty_store)"
    using OfferSerializer_create_three_tiers [of ?dup empty_store 1,
        THEN conjunct2, THEN conjunct2, THEN conjunct1, THEN spec, THEN mp, OF d] .
  have t: "OfferSerializer_validate None ?two = Inl WrongDetailCount"
    by (simp add: OfferSerializer_validate_def)
  show "OfferSerializer_save empty_store 1 None ?two = (Inl WrongDetailCount, empty_store)"
    using OfferSerializer_create_three_tiers [of ?two empty_store 1,
        THEN conjunct2, THEN conjunct2, THEN conjunct1, THEN spec, THEN mp, OF t] .
qed

section \<open>Properties of OfferSerializer.update\<close>

lemma same_pk:
  "distinct (map f rows) \<Longrightarrow> x \<in> set rows \<Longrightarrow> y \<in> set rows \<Longrightarrow> f x = f y \<Longrightarrow> x = y"
  by (meson distinct_map inj_onD)

lemma replace_keys:
  assumes "distinct (map od_id rows)" "d \<in> set rows" "od_key d' = od_key d"
  shows "map od_key (map (\<lambda>r. if od_id r = od_id d' then d' else r) rows) = map od_key rows"
proof -
  have "od_key (if od_id r = od_id d' then d' else r) = od_key r" if "r \<in> set rows" for r
  proof (cases "od_id r = od_id d'")
    case True
    then have "od_id r = od_id d" using assms(3) by (simp add: od_key_def)
    then have "r = d" using same_pk [OF assms(1) that assms(2)] by simp
    then show ?thesis using True assms(3) by simp
  next
    case False
    then show ?thesis by simp
  qed
  then show ?thesis by (simp add: comp_def)
qed

lemma OfferDetail_save_keys:
  assumes "distinct (map od_id (offer_details s))" "d \<in> set (offer_details s)" "od_key d' = od_key d"
  shows "map od_key (offer_details (OfferDetail_save s d')) = map od_key (offer_details s)"
proof -
  have "od_id d' \<in> set (map od_id (offer_details s))"
    using assms(2,3) by (auto simp: od_key_def)
  then show ?thesis
    using replace_keys [OF assms] by (simp add: OfferDetail_save_def)
qed

lemma OfferDetail_save_others:
  "users (OfferDetail_save s d) = users s \<and> profiles (OfferDetail_save s d) = profiles s
   \<and> offers (OfferDetail_save s d) = offers s \<and> orders (OfferDetail_save s d) = orders s
   \<and> reviews (OfferDetail_save s d) = reviews s"
  by (simp add: OfferDetail_save_def)

lemma setattrs_key: "od_key (setattrs d p) = od_key d"
  by (simp add: setattrs_def od_key_def)

lemma keys_ids: "map od_key xs = map od_key ys \<Longrightarrow> map od_id xs = map od_id ys"
proof -
  assume "map od_key xs = map od_key ys"
  then have "map (fst \<circ> od_key) xs = map (fst \<circ> od_key) ys"
    by (metis map_map)
  moreover have "fst \<circ> od_key = od_id" by (auto simp: od_key_def)
  ultimately show ?thesis by simp
qed

lemma patch_details_keys:
  "distinct (map od_id (offer_details s)) \<Longrightarrow>
   map od_key (offer_details (snd (patch_details s instance ps))) = map od_key (offer_details s)"
proof (induction ps arbitrary: s)
  case Nil
  then show ?case by simp
next
  case (Cons p ps)
  show ?case
  proof (cases "da_offer_type p")
    case None
    then show ?thesis by simp
  next
    case (Some t)
    show ?thesis
    proof (cases "filter (\<lambda>d. od_offer_type d = t) (instance_details s instance)")
      case Nil
      then show ?thesis using Some by simp
    next
      case (Cons d ds)
      show ?thesis
      proof (cases ds)
        case Nil
        let ?s1 = "OfferDetail_save s (setattrs d p)"
        have "d \<in> set (filter (\<lambda>d. od_offer_type d = t) (instance_details s instance))"
          using Cons by simp
        then have "d \<in> set (offer_details s)" by (simp add: instance_details_def)
        then have k: "map od_key (offer_details ?s1) = map od_key (offer_details s)"
          using OfferDetail_save_keys [OF Cons.prems _ setattrs_key] by simp
        then have "distinct (map od_id (offer_details ?s1))"
          using Cons.prems keys_ids by metis
        then have "map od_key (offer_details (snd (patch_details ?s1 instance ps)))
                   = map od_key (offer_details ?s1)"
          by (rule Cons.IH)
        then show ?thesis using Some Cons Nil k by simp
      next
        case (Cons d2 ds2)
        then show ?thesis using Some \<open>filter _ _ = d # ds\<close> by simp
      qed
    qed
  qed
qed

lemma update_store:
  "snd (OfferSerializer_update s instance attrs)
   = snd (patch_details (Offer_save s (set_scalars instance attrs)) (set_scalars instance attrs)
            (case oa_details attrs of None \<Rightarrow> [] | Some ps \<Rightarrow> ps))"
  by (simp add: OfferSerializer_update_def Let_def split: option.splits prod.splits)

lemma OfferSerializer_update_keys:
  assumes "distinct (map od_id (offer_details s))"
  shows "map od_key (offer_details (snd (OfferSerializer_update s instance attrs)))
         = map od_key (offer_details s)"
proof -
  let ?i = "set_scalars instance attrs"
  let ?s1 = "Offer_save s ?i"
  have 1: "offer_details ?s1 = offer_details s" by (simp add: Offer_save_def)
  then have "map od_key (offer_details (snd (patch_details ?s1 ?i ps))) = map od_key (offer_details s)" for ps
    using patch_details_keys [of ?s1 ?i ps] assms by simp
  then show ?thesis
    unfolding update_store by simp
qed

lemma keys_children:
  assumes "map od_key xs = map od_key ys"
  shows "map od_offer_type (filter (\<lambda>d. od_offer d = i) xs)
         = map od_offer_type (filter (\<lambda>d. od_offer d = i) ys)"
proof -
  have "length xs = length ys" using assms by (metis length_map)
  then show ?thesis using assms
    by (induction xs ys rule: list_induct2) (auto simp: od_key_def)
qed


lemma validate_Inr: "OfferSerializer_validate i a = Inr x \<Longrightarrow> x = a"
  by (simp add: OfferSerializer_validate_def Let_def split: option.splits if_splits)

text \<open>
  Claim C2. An update of an Offer, with any scalar fields and any list of detail patches,
  whether it succeeds or fails, leaves the children of the Offer with the same
  \<^verbatim>\<open>offer_type\<close> values in the same order: no row of the detail table is added or
  removed, and no row changes its primary key, its offer or its tier. The tier a patch
  names only selects the child to patch. The table is taken to have one row for each
  primary key.
\<close>

theorem OfferSerializer_update_keeps_types:
  assumes "distinct (map od_id (offer_details s))"
  shows "map od_offer_type (instance_details (snd (OfferSerializer_update s instance attrs)) instance)
           = map od_offer_type (instance_details s instance)
       \<and> map od_offer_type
           (instance_details (snd (OfferSerializer_save s owner (Some instance) attrs)) instance)
           = map od_offer_type (instance_details s instance)
       \<and> map od_key (offer_details (snd (OfferSerializer_update s instance attrs)))
           = map od_key (offer_details s)"
proof -
  have k: "map od_key (offer_details (snd (OfferSerializer_update s instance attrs)))
           = map od_key (offer_details s)"
    using assms by (rule OfferSerializer_update_keys)
  then have u: "map od_offer_type (instance_details (snd (OfferSerializer_update s instance attrs)) instance)
           = map od_offer_type (instance_details s instance)"
    unfolding instance_details_def by (rule keys_children)
  have "snd (OfferSerializer_save s owner (Some instance) attrs) = s
        \<or> snd (OfferSerializer_save s owner (Some instance) attrs)
            = snd (OfferSerializer_update s instance attrs)"
    by (auto simp add: OfferSerializer_save_def split: sum.splits dest: validate_Inr)
  then have "map od_offer_type
           (instance_details (snd (OfferSerializer_save s owner (Some instance) attrs)) instance)
           = map od_offer_type (instance_details s instance)"
    using u by metis
  then show ?thesis using k u by simp
qed

theorem OfferSerializer_update_keeps_types_witness:
  "distinct (map od_id (offer_details store1))
   \<and> map od_offer_type
       (instance_details
          (snd (OfferSerializer_update store1 offer1 (update_attrs None [patch ''basic'' 50]))) offer1)
     = [''basic'', ''standard'', ''premium'']"
proof -
  have h: "distinct (map od_id (offer_details store1))"
    by (simp add: store1_def detail_row_def)
  have b: "map od_offer_type (instance_details store1 offer1) = [''basic'', ''standard'', ''premium'']"
    by (simp add: instance_details_def store1_def detail_row_def offer1_def)
  show ?thesis
    using h b OfferSerializer_update_keeps_types [OF h, of offer1 "update_attrs None [patch ''basic'' 50]", THEN conjunct1]
    by simp
qed

lemma patch_details_append:
  "patch_details s i (ps @ qs)
   = (case patch_details s i ps of (None, s1) \<Rightarrow> patch_details s1 i qs | (Some e, s1) \<Rightarrow> (Some e, s1))"
  by (induction ps arbitrary: s) (simp_all split: option.splits list.splits)

lemma patch_details_others:
  "offers (snd (patch_details s i ps)) = offers s \<and> orders (snd (patch_details s i ps)) = orders s
   \<and> reviews (snd (patch_details s i ps)) = reviews s"
  by (induction ps arbitrary: s) (simp_all add: OfferDetail_save_others split: option.splits list.splits)

lemma filter_single:
  "distinct (map f xs) \<Longrightarrow> t \<in> set (map f xs) \<Longrightarrow> \<exists>x. filter (\<lambda>d. f d = t) xs = [x]"
proof (induction xs)
  case Nil
  then show ?case by simp
next
  case (Cons a xs)
  show ?case
  proof (cases "f a = t")
    case True
    then have "t \<notin> f ` set xs" using Cons.prems(1) by auto
    then have "filter (\<lambda>d. f d = t) xs = []" by (auto simp: filter_empty_conv)
    then show ?thesis using True by simp
  next
    case False
    then show ?thesis using Cons by auto
  qed
qed

lemma patch_details_matched:
  assumes "distinct (map od_id (offer_details s))"
      and "distinct (map od_offer_type (instance_details s i))"
      and "\<forall>q\<in>set qs. \<exists>t. da_offer_type q = Some t \<and> t \<in> set (map od_offer_type (instance_details s i))"
  shows "fst (patch_details s i qs) = None"
  using assms
proof (induction qs arbitrary: s)
  case Nil
  then show ?case by simp
next
  case (Cons q qs)
  obtain t where t: "da_offer_type q = Some t" "t \<in> set (map od_offer_type (instance_details s i))"
    using Cons.prems(3) by auto
  obtain d where d: "filter (\<lambda>d. od_offer_type d = t) (instance_details s i) = [d]"
    using filter_single [OF Cons.prems(2) t(2)] by blast
  let ?s1 = "OfferDetail_save s (setattrs d q)"
  have "d \<in> set (filter (\<lambda>d. od_offer_type d = t) (instance_details s i))" using d by simp
  then have "d \<in> set (offer_details s)" by (simp add: instance_details_def)
  then have k: "map od_key (offer_details ?s1) = map od_key (offer_details s)"
    using OfferDetail_save_keys [OF Cons.prems(1) _ setattrs_key] by simp
  then have 1: "distinct (map od_id (offer_details ?s1))"
    using Cons.prems(1) keys_ids by metis
  have c: "map od_offer_type (instance_details ?s1 i) = map od_offer_type (instance_details s i)"
    unfolding instance_details_def using k by (rule keys_children)
  have "fst (patch_details ?s1 i qs) = None"
    using Cons.IH [OF 1] Cons.prems(2,3) c by simp
  then show ?case using t(1) d by simp
qed

lemma update_unfold:
  "OfferSerializer_update s instance attrs
   = (case patch_details (Offer_save s (set_scalars instance attrs)) (set_scalars instance attrs)
             (case oa_details attrs of None \<Rightarrow> [] | Some ps \<Rightarrow> ps) of
        (None, s2) \<Rightarrow> (Inr (set_scalars instance attrs), s2)
      | (Some e, s2) \<Rightarrow> (Inl e, s2))"
  by (simp add: OfferSerializer_update_def Let_def split: option.splits prod.splits)

lemma update_fails_at:
  assumes "oa_details attrs = Some (ps @ p # qs)"
      and "patch_details (Offer_save s (set_scalars instance attrs)) (set_scalars instance attrs) ps
           = (None, s1)"
      and "da_offer_type p = Some t"
      and "filter (\<lambda>d. od_offer_type d = t) (instance_details s1 (set_scalars instance attrs)) = []"
  shows "OfferSerializer_update s instance attrs = (Inl (DetailNotFound t), s1)"
proof -
  have "patch_details s1 (set_scalars instance attrs) (p # qs) = (Some (DetailNotFound t), s1)"
    using assms(3,4) by simp
  then show ?thesis
    using assms(1,2) by (simp add: update_unfold patch_details_append)
qed


lemma update_rejects_unknown_tier:
  assumes "distinct (map od_id (offer_details s))"
      and "distinct (map od_offer_type (instance_details s instance))"
      and "oa_details attrs = Some (qs @ p # rs)"
      and "\<forall>q\<in>set qs. \<exists>t. da_offer_type q = Some t
              \<and> t \<in> set (map od_offer_type (instance_details s instance))"
      and "da_offer_type p = Some t"
      and "t \<notin> set (map od_offer_type (instance_details s instance))"
  shows "fst (OfferSerializer_update s instance attrs) = Inl (DetailNotFound t)"
proof -
  let ?i = "set_scalars instance attrs"
  let ?s0 = "Offer_save s ?i"
  have d0: "offer_details ?s0 = offer_details s" by (simp add: Offer_save_def)
  have "o_id ?i = o_id instance" by (simp add: set_scalars_def)
  then have c0: "instance_details s0 ?i = instance_details s0 instance" for s0
    by (simp add: instance_details_def)
  have i0: "instance_details ?s0 ?i = instance_details s instance"
    using d0 c0 by (simp add: instance_details_def)
  have "fst (patch_details ?s0 ?i qs) = None"
    using patch_details_matched [of ?s0 ?i qs] assms(1,2,4) d0 i0 by simp
  then obtain s1 where s1: "patch_details ?s0 ?i qs = (None, s1)"
    by (metis prod.collapse)
  have "map od_key (offer_details s1) = map od_key (offer_details ?s0)"
    using patch_details_keys [of ?s0 ?i qs] assms(1) d0 s1 by simp
  then have "map od_offer_type (instance_details s1 ?i) = map od_offer_type (instance_details ?s0 ?i)"
    unfolding instance_details_def by (rule keys_children)
  then have "t \<notin> set (map od_offer_type (instance_details s1 ?i))"
    using assms(6) i0 by simp
  then have "filter (\<lambda>d. od_offer_type d = t) (instance_details s1 ?i) = []"
    by (auto simp: filter_empty_conv)
  then show ?thesis
    using update_fails_at [OF assms(3) s1 assms(5)] by simp
qed












text \<open>
  Claim C7, as stated, fails on the kind of the error: the update of an offer without a
  basic child, with a patch for basic, fails with a \<^verbatim>\<open>serializers.ValidationError\<close>, which
  is of the validation kind and not of the not-found kind.
\<close>

theorem OfferSerializer_update_unknown_tier_counterexample:
  "fst (OfferSerializer_update store_without_basic offer1 (update_attrs None [patch ''basic'' 50]))
     = Inl (DetailNotFound ''basic'')
   \<and> (\<exists>m. DetailNotFound ''basic'' = ValidationError (Msg m))
   \<and> kind_of (DetailNotFound ''basic'') = Validation
   \<and> kind_of (DetailNotFound ''basic'') \<noteq> NotFound"
  by (simp add: update_unfold store_without_basic_def store1_def offer1_def update_attrs_def
      patch_def detail_row_def set_scalars_def Offer_save_def instance_details_def
      DetailNotFound_def)

text \<open>
  Claim C7, amended. When the first detail patch that matches no child of the Offer names
  the \<^verbatim>\<open>offer_type\<close> \<open>t\<close>, every earlier patch naming a tier the Offer has, the update
  fails with a \<^verbatim>\<open>ValidationError\<close>, an error of the validation kind, whose message
  \<^verbatim>\<open>Detail with offer_type 't' does not exist.\<close> gives the offending value. The children of
  the Offer are taken to have distinct tiers, and the table one row for each primary key.
\<close>

theorem OfferSerializer_update_unknown_tier:
  assumes "distinct (map od_id (offer_details s))"
      and "distinct (map od_offer_type (instance_details s instance))"
      and "oa_details attrs = Some (qs @ p # rs)"
      and "\<forall>q\<in>set qs. \<exists>t. da_offer_type q = Some t
              \<and> t \<in> set (map od_offer_type (instance_details s instance))"
      and "da_offer_type p = Some t"
      and "t \<notin> set (map od_offer_type (instance_details s instance))"
  shows "fst (OfferSerializer_update s instance attrs)
           = Inl (ValidationError
                   (Msg (''Detail with offer_type '' @ [CHR 0x27] @ t @ [CHR 0x27] @ '' does not exist.'')))
       \<and> kind_of (DetailNotFound t) = Validation"
  using update_rejects_unknown_tier [OF assms] by (simp add: DetailNotFound_def)

theorem OfferSerializer_update_unknown_tier_witness:
  "fst (OfferSerializer_update store_without_basic offer1
          (update_attrs None [patch ''premium'' 400, patch ''basic'' 50]))
   = Inl (ValidationError
           (Msg (''Detail with offer_type '' @ [CHR 0x27] @ ''basic'' @ [CHR 0x27] @ '' does not exist.'')))"
proof -
  let ?attrs = "update_attrs None [patch ''premium'' 400, patch ''basic'' 50]"
  have 1: "distinct (map od_id (offer_details store_without_basic))"
    by (simp add: store_without_basic_def store1_def detail_row_def)
  have t: "map od_offer_type (instance_details store_without_basic offer1) = [''standard'', ''premium'']"
    by (simp add: instance_details_def store_without_basic_def store1_def detail_row_def offer1_def)
  have 2: "distinct (map od_offer_type (instance_details store_without_basic offer1))"
    unfolding t by simp
  have 3: "oa_details ?attrs = Some ([patch ''premium'' 400] @ patch ''basic'' 50 # [])"
    by (simp add: update_attrs_def)
  have 4: "\<forall>q\<in>set [patch ''premium'' 400]. \<exists>t. da_offer_type q = Some t
              \<and> t \<in> set (map od_offer_type (instance_details store_without_basic offer1))"
    unfolding t by (simp add: patch_def)
  have 5: "da_offer_type (patch ''basic'' 50) = Some ''basic''"
    by (simp add: patch_def)
  have 6: "''basic'' \<notin> set (map od_offer_type (instance_details store_without_basic offer1))"
    unfolding t by simp
  show ?thesis
    using OfferSerializer_update_unknown_tier [OF 1 2 3 4 5 6, THEN conjunct1] .
qed

section \<open>Properties of OrderSerializer\<close>

lemma update_orders: "orders (snd (OfferSerializer_update s instance attrs)) = orders s"
  unfolding update_store using patch_details_others [of "Offer_save s (set_scalars instance attrs)"]
  by (simp add: Offer_save_def)

lemma edited_orders: "edited s1 s2 \<Longrightarrow> orders s2 = orders s1"
  by (induction rule: edited.induct) (simp_all add: update_orders OfferDetail_save_others)

lemma find_Some_set: "find P xs = Some x \<Longrightarrow> x \<in> set xs \<and> P x"
  by (induction xs) (auto split: if_splits)

lemma Order_create_Some:
  assumes "Order_create s customer offer_detail_id = (Some order, s1)"
  shows "\<exists>d\<in>set (offer_details s). od_id d = offer_detail_id \<and> ord_offer_detail order = d
           \<and> ord_status order = ''pending'' \<and> ord_customer_user order = customer
           \<and> orders s1 = orders s @ [order]"
proof (cases "find (\<lambda>d. od_id d = offer_detail_id) (offer_details s)")
  case None
  then show ?thesis using assms by (simp add: Order_create_def)
next
  case (Some d)
  then have d: "d \<in> set (offer_details s) \<and> od_id d = offer_detail_id"
    by (rule find_Some_set)
  show ?thesis
  proof (cases "find (\<lambda>r. o_id r = od_offer d) (offers s)")
    case None
    then show ?thesis using assms Some by (simp add: Order_create_def)
  next
    case (Some offer)
    then show ?thesis using assms \<open>find _ (offer_details s) = Some d\<close> d
      by (auto simp: Order_create_def Let_def)
  qed
qed

lemma create_example:
  "Order_create store1 2 1 = (Some order2, store1\<lparr> orders := [order1, order2] \<rparr>)"
  by (simp add: Order_create_def store1_def offer1_def detail_row_def order1_def order2_def
      fresh_def Let_def)

lemma edit_example:
  "map od_price (offer_details (snd (OfferSerializer_update (store1\<lparr> orders := [order1, order2] \<rparr>)
      offer1 (update_attrs None [patch ''basic'' 50])))) = [50, 200, 500]"
  by (simp add: update_unfold store1_def offer1_def update_attrs_def
      patch_def detail_row_def set_scalars_def Offer_save_def OfferDetail_save_def
      instance_details_def setattrs_def)

text \<open>
  Claim C4, on the Order of the specification. An Order created against an OfferDetail
  shows, as its title, revisions, delivery time, price, features and offer type, the
  values that detail had when the Order was created. The later edits of offers and
  details, any number of them, leave the rows of the orders as they were, and with them
  what \<^verbatim>\<open>OrderSerializer\<close> shows of each Order: it reads the six fields from the Order's
  own \<^verbatim>\<open>offer_detail\<close> and from nothing else.
\<close>

theorem OrderSerializer_snapshot:
  assumes "Order_create s customer offer_detail_id = (Some order, s1)"
      and "edited s1 s2"
  shows "(\<exists>d\<in>set (offer_details s). od_id d = offer_detail_id
            \<and> rep_title (OrderSerializer_to_representation order) = od_title d
            \<and> rep_revisions (OrderSerializer_to_representation order) = od_revisions d
            \<and> rep_delivery_time_in_days (OrderSerializer_to_representation order)
                = od_delivery_time_in_days d
            \<and> rep_price (OrderSerializer_to_representation order) = od_price d
            \<and> rep_features (OrderSerializer_to_representation order) = od_features d
            \<and> rep_offer_type (OrderSerializer_to_representation order) = od_offer_type d)
       \<and> orders s1 = orders s @ [order]
       \<and> orders s2 = orders s1"
proof (intro conjI)
  obtain d where d: "d \<in> set (offer_details s)" "od_id d = offer_detail_id"
      "ord_offer_detail order = d" "orders s1 = orders s @ [order]"
    using Order_create_Some [OF assms(1)] by blast
  show "\<exists>d\<in>set (offer_details s). od_id d = offer_detail_id
            \<and> rep_title (OrderSerializer_to_representation order) = od_title d
            \<and> rep_revisions (OrderSerializer_to_representation order) = od_revisions d
            \<and> rep_delivery_time_in_days (OrderSerializer_to_representation order)
                = od_delivery_time_in_days d
            \<and> rep_price (OrderSerializer_to_representation order) = od_price d
            \<and> rep_features (OrderSerializer_to_representation order) = od_features d
            \<and> rep_offer_type (OrderSerializer_to_representation order) = od_offer_type d"
    using d(1,2,3) by (intro bexI [of _ d]) (simp_all add: OrderSerializer_to_representation_def)
  show "orders s1 = orders s @ [order]" by (rule d(4))
  show "orders s2 = orders s1" using assms(2) by (rule edited_orders)
qed

theorem OrderSerializer_snapshot_witness:
  "Order_create store1 2 1 = (Some order2, store1\<lparr> orders := [order1, order2] \<rparr>)
   \<and> map od_price (offer_details (snd (OfferSerializer_update (store1\<lparr> orders := [order1, order2] \<rparr>)
        offer1 (update_attrs None [patch ''basic'' 50])))) = [50, 200, 500]
   \<and> orders (snd (OfferSerializer_update (store1\<lparr> orders := [order1, order2] \<rparr>)
        offer1 (update_attrs None [patch ''basic'' 50]))) = [order1, order2]
   \<and> rep_price (OrderSerializer_to_representation order2) = 100"
proof -
  let ?s1 = "store1\<lparr> orders := [order1, order2] \<rparr>"
  let ?s2 = "snd (OfferSerializer_update ?s1 offer1 (update_attrs None [patch ''basic'' 50]))"
  have e: "edited ?s1 ?s2" by (intro edited_update edited_none)
  have "orders ?s2 = orders ?s1"
    using OrderSerializer_snapshot [OF create_example e] by simp
  then have "orders ?s2 = [order1, order2]" by simp
  moreover have "rep_price (OrderSerializer_to_representation order2) = 100"
    by (simp add: OrderSerializer_to_representation_def order2_def detail_row_def)
  ultimately show ?thesis using create_example edit_example by simp
qed

section \<open>Properties of OrderStatusUpdateSerializer\<close>

text \<open>
  The validated data has no key but \<^verbatim>\<open>status\<close>, so the test for forbidden fields in
  \<^verbatim>\<open>validate\<close> never finds one in a request; \<^verbatim>\<open>validate\<close> itself, called on a dict with
  another key, does raise. An empty partial update is rejected.
\<close>

lemma to_internal_value_keys:
  "OrderStatusUpdateSerializer_to_internal_value C partial d = Inr attrs \<Longrightarrow>
   set (map fst attrs) \<subseteq> {''status''}"
  by (auto simp: OrderStatusUpdateSerializer_to_internal_value_def split: outcome.splits)

lemma forbidden_never:
  "OrderStatusUpdateSerializer_run_validation C partial d
     \<noteq> Inl (ValidationError (Msg (''Forbidden fields: '' @ names)))"
  by (auto simp: OrderStatusUpdateSerializer_run_validation_def
      OrderStatusUpdateSerializer_to_internal_value_def OrderStatusUpdateSerializer_validate_def
      split: outcome.splits sum.splits)

lemma empty_update:
  "OrderStatusUpdateSerializer_run_validation C True [] = Inl (ValidationError (Msg ''No data provided.''))"
  by (simp add: OrderStatusUpdateSerializer_run_validation_def
      OrderStatusUpdateSerializer_to_internal_value_def OrderStatusUpdateSerializer_validate_def)

lemma validate_forbidden:
  "OrderStatusUpdateSerializer_validate [(''status'', JStr ''completed''), (''price'', JInt 10)]
   = Inl (ValidationError (Msg ''Forbidden fields: price''))"
  by (simp add: OrderStatusUpdateSerializer_validate_def)

lemma order_save_example:
  "OrderStatusUpdateSerializer_save STATUS_CHOICES store1 order1 True
     [(''status'', JStr ''completed''), (''price'', JInt 10)]
   = (Inr (order1\<lparr> ord_status := ''completed'' \<rparr>),
      store1\<lparr> orders := [order1\<lparr> ord_status := ''completed'' \<rparr>] \<rparr>)"
  by (simp add: OrderStatusUpdateSerializer_save_def OrderStatusUpdateSerializer_run_validation_def
      OrderStatusUpdateSerializer_to_internal_value_def OrderStatusUpdateSerializer_validate_def
      ChoiceField_def STATUS_CHOICES_def Order_save_def store1_def order1_def Let_def)

text \<open>
  Claim C5, where the code departs from it. A partial update with the data
  \<^verbatim>\<open>{"status": "completed", "price": 10}\<close> is not rejected: \<^verbatim>\<open>price\<close> is a read-only field,
  it is left out of \<^verbatim>\<open>attrs\<close>, and \<^verbatim>\<open>validate\<close> sees \<^verbatim>\<open>status\<close> alone and accepts.
\<close>

theorem OrderStatusUpdateSerializer_ignores_other_keys:
  "OrderStatusUpdateSerializer_run_validation STATUS_CHOICES True
     [(''status'', JStr ''completed''), (''price'', JInt 10)]
   = Inr [(''status'', JStr ''completed'')]"
  by (simp add: OrderStatusUpdateSerializer_run_validation_def
      OrderStatusUpdateSerializer_to_internal_value_def OrderStatusUpdateSerializer_validate_def
      ChoiceField_def STATUS_CHOICES_def)

section \<open>Properties of ReviewSerializer and ReviewPatchSerializer\<close>

lemma bounds_range: "bounds (Some lo) (Some hi) n = Inr m \<Longrightarrow> lo \<le> m \<and> m \<le> hi"
  by (simp add: bounds_def split: if_splits)

lemma IntegerField_range:
  "IntegerField lx (Some lo) (Some hi) v = Inr n \<Longrightarrow> lo \<le> n \<and> n \<le> hi"
proof (cases v)
  case (JInt m)
  assume "IntegerField lx (Some lo) (Some hi) v = Inr n"
  then show ?thesis using JInt by (simp add: bounds_range)
next
  case (JStr t)
  assume "IntegerField lx (Some lo) (Some hi) v = Inr n"
  then show ?thesis using JStr
    by (simp add: bounds_range split: if_splits option.splits)
qed simp_all

lemma CharField_nonempty: "CharField v = Inr d \<Longrightarrow> d \<noteq> []"
  by (cases v) (simp_all add: CharField_def split: if_splits)

lemma run_field_Value:
  "run_field partial field v = Value x \<Longrightarrow> \<exists>j. v = Some j \<and> field j = Inr x"
proof (cases v)
  case None
  assume "run_field partial field v = Value x"
  then show ?thesis using None by (simp split: if_splits)
next
  case (Some j)
  assume "run_field partial field v = Value x"
  then show ?thesis using Some by (cases j) (simp_all split: sum.splits)
qed

lemma run_field_required: "run_field False field v \<noteq> Skip"
proof (cases v)
  case None
  then show ?thesis by simp
next
  case (Some j)
  then show ?thesis by (cases j) (simp_all split: sum.splits)
qed

lemma value_of_Some: "value_of out = Some x \<longleftrightarrow> out = Value x"
  by (cases out) simp_all

lemma field_errors_Nil: "field_errors name out = [] \<longleftrightarrow> (\<forall>c. out \<noteq> Fail c)"
  by (cases out) simp_all


lemma to_internal_value_Inr:
  assumes "ReviewSerializer_to_internal_value lx s partial d = Inr attrs"
  shows "ra_business_user attrs
           = value_of (run_field partial (PrimaryKeyRelatedField lx (users s)) (map_of d ''business_user''))
       \<and> ra_rating attrs
           = value_of (run_field partial (IntegerField lx (Some 1) (Some 5)) (map_of d ''rating''))
       \<and> ra_description attrs = value_of (run_field partial CharField (map_of d ''description''))
       \<and> (\<forall>c. run_field partial (PrimaryKeyRelatedField lx (users s)) (map_of d ''business_user'') \<noteq> Fail c)
       \<and> (\<forall>c. run_field partial (IntegerField lx (Some 1) (Some 5)) (map_of d ''rating'') \<noteq> Fail c)
       \<and> (\<forall>c. run_field partial CharField (map_of d ''description'') \<noteq> Fail c)"
proof -
  define b where "b = run_field partial (PrimaryKeyRelatedField lx (users s)) (map_of d ''business_user'')"
  define r where "r = run_field partial (IntegerField lx (Some 1) (Some 5)) (map_of d ''rating'')"
  define c where "c = run_field partial CharField (map_of d ''description'')"
  have u: "ReviewSerializer_to_internal_value lx s partial d
           = (if field_errors ''business_user'' b @ field_errors ''rating'' r
                 @ field_errors ''description'' c \<noteq> []
              then Inl (ValidationError (Dict (field_errors ''business_user'' b
                     @ field_errors ''rating'' r @ field_errors ''description'' c)))
              else Inr \<lparr> ra_business_user = value_of b, ra_rating = value_of r,
                         ra_description = value_of c \<rparr>)"
    unfolding ReviewSerializer_to_internal_value_def Let_def b_def r_def c_def ..
  have e: "field_errors ''business_user'' b @ field_errors ''rating'' r
             @ field_errors ''description'' c = []"
    using assms unfolding u by (simp split: if_splits)
  then have a: "attrs = \<lparr> ra_business_user = value_of b, ra_rating = value_of r,
                          ra_description = value_of c \<rparr>"
    using assms unfolding u by simp
  have "field_errors ''business_user'' b = []" "field_errors ''rating'' r = []"
       "field_errors ''description'' c = []"
    using e by simp_all
  then have "\<forall>x. b \<noteq> Fail x" "\<forall>x. r \<noteq> Fail x" "\<forall>x. c \<noteq> Fail x"
    unfolding field_errors_Nil by blast+
  then show ?thesis using a unfolding b_def r_def c_def by simp
qed


lemma accepted_rating:
  assumes "ReviewSerializer_to_internal_value lx s partial d = Inr attrs"
      and "ra_rating attrs = Some r"
  shows "1 \<le> r \<and> r \<le> 5"
proof -
  have "value_of (run_field partial (IntegerField lx (Some 1) (Some 5)) (map_of d ''rating'')) = Some r"
    using to_internal_value_Inr [OF assms(1)] assms(2) by simp
  then have "run_field partial (IntegerField lx (Some 1) (Some 5)) (map_of d ''rating'') = Value r"
    by (simp only: value_of_Some)
  from run_field_Value [OF this]
  obtain j where "IntegerField lx (Some 1) (Some 5) j = Inr r" by (elim exE conjE)
  then show ?thesis by (rule IntegerField_range)
qed

lemma accepted_description:
  assumes "ReviewSerializer_to_internal_value lx s partial d = Inr attrs"
      and "ra_description attrs = Some t"
  shows "t \<noteq> []"
proof -
  have "value_of (run_field partial CharField (map_of d ''description'')) = Some t"
    using to_internal_value_Inr [OF assms(1)] assms(2) by simp
  then have "run_field partial CharField (map_of d ''description'') = Value t"
    by (simp only: value_of_Some)
  from run_field_Value [OF this]
  obtain j where "CharField j = Inr t" by (elim exE conjE)
  then show ?thesis by (rule CharField_nonempty)
qed

lemma outcome_Value: "out \<noteq> Skip \<Longrightarrow> \<forall>c. out \<noteq> Fail c \<Longrightarrow> \<exists>x. value_of out = Some x"
  by (cases out) simp_all

lemma accepted_fields_create:
  assumes "ReviewSerializer_to_internal_value lx s False d = Inr attrs"
  shows "(\<exists>b. ra_business_user attrs = Some b) \<and> (\<exists>r. ra_rating attrs = Some r)
           \<and> (\<exists>t. ra_description attrs = Some t)"
proof -
  note f = to_internal_value_Inr [OF assms]
  have "\<exists>b. ra_business_user attrs = Some b"
    using f outcome_Value [OF run_field_required, of "PrimaryKeyRelatedField lx (users s)" "map_of d ''business_user''"]
    by simp
  moreover have "\<exists>r. ra_rating attrs = Some r"
    using f outcome_Value [OF run_field_required, of "IntegerField lx (Some 1) (Some 5)" "map_of d ''rating''"]
    by simp
  moreover have "\<exists>t. ra_description attrs = Some t"
    using f outcome_Value [OF run_field_required, of CharField "map_of d ''description''"]
    by simp
  ultimately show ?thesis by simp
qed

lemma validate_Inr_review: "ReviewSerializer_validate s user attrs = Inr x \<Longrightarrow> x = attrs"
  by (simp add: ReviewSerializer_validate_def Let_def split: if_splits)

lemma patch_validate_Inr: "ReviewPatchSerializer_validate i attrs = Inr x \<Longrightarrow> x = attrs"
  by (simp add: ReviewPatchSerializer_validate_def Let_def split: option.splits if_splits)

lemma run_validation_Inr:
  assumes "ReviewSerializer_run_validation lx s user partial d = Inr attrs"
  shows "ReviewSerializer_to_internal_value lx s partial d = Inr attrs"
proof (cases "ReviewSerializer_to_internal_value lx s partial d")
  case (Inl e)
  then show ?thesis using assms by (simp add: ReviewSerializer_run_validation_def)
next
  case (Inr a)
  then have "ReviewSerializer_validate s user a = Inr attrs"
    using assms by (simp add: ReviewSerializer_run_validation_def)
  then have "attrs = a" by (rule validate_Inr_review)
  then show ?thesis using Inr by simp
qed

lemma patch_run_validation_Inr:
  assumes "ReviewPatchSerializer_run_validation lx s partial d = Inr attrs"
  shows "ReviewSerializer_to_internal_value lx s partial d = Inr attrs"
proof (cases "ReviewSerializer_to_internal_value lx s partial d")
  case (Inl e)
  then show ?thesis using assms by (simp add: ReviewPatchSerializer_run_validation_def)
next
  case (Inr a)
  then have "ReviewPatchSerializer_validate (Some d) a = Inr attrs"
    using assms by (simp add: ReviewPatchSerializer_run_validation_def)
  then have "attrs = a" by (rule patch_validate_Inr)
  then show ?thesis using Inr by simp
qed


lemma to_internal_value_errors:
  "field_errors ''business_user''
       (run_field partial (PrimaryKeyRelatedField lx (users s)) (map_of d ''business_user''))
     @ field_errors ''rating'' (run_field partial (IntegerField lx (Some 1) (Some 5)) (map_of d ''rating''))
     @ field_errors ''description'' (run_field partial CharField (map_of d ''description'')) = es
   \<Longrightarrow> es \<noteq> []
   \<Longrightarrow> ReviewSerializer_to_internal_value lx s partial d = Inl (ValidationError (Dict es))"
  unfolding ReviewSerializer_to_internal_value_def Let_def by simp

lemma rating_rejected:
  assumes "map_of d ''rating'' = Some (JInt n)" "n < 1 \<or> 5 < n"
  shows "\<exists>es. ReviewSerializer_to_internal_value lx s partial d = Inl (ValidationError (Dict es))
            \<and> (''rating'', if 5 < n then ''max_value'' else ''min_value'') \<in> set es"
proof -
  have b: "bounds (Some 1) (Some 5) n = Inl (if 5 < n then ''max_value'' else ''min_value'')"
    using assms(2) unfolding bounds_def by (cases "5 < n") simp_all
  have r: "run_field partial (IntegerField lx (Some 1) (Some 5)) (map_of d ''rating'')
        = Fail (if 5 < n then ''max_value'' else ''min_value'')"
    unfolding assms(1) by (simp only: run_field.simps IntegerField.simps b sum.case)
  define es where "es = field_errors ''business_user''
       (run_field partial (PrimaryKeyRelatedField lx (users s)) (map_of d ''business_user''))
     @ field_errors ''rating'' (run_field partial (IntegerField lx (Some 1) (Some 5)) (map_of d ''rating''))
     @ field_errors ''description'' (run_field partial CharField (map_of d ''description''))"
  have m: "(''rating'', if 5 < n then ''max_value'' else ''min_value'') \<in> set es"
    unfolding es_def r by (simp only: field_errors.simps set_append Un_iff list.set insert_iff simp_thms)
  then have "es \<noteq> []" by (cases es) simp_all
  with es_def [symmetric] have "ReviewSerializer_to_internal_value lx s partial d = Inl (ValidationError (Dict es))"
    by (rule to_internal_value_errors)
  with m show ?thesis by (intro exI conjI)
qed

lemma description_rejected:
  assumes "map_of d ''description'' = Some (JStr t)" "strip t = []"
  shows "\<exists>es. ReviewSerializer_to_internal_value lx s partial d = Inl (ValidationError (Dict es))
            \<and> (''description'', ''blank'') \<in> set es"
proof -
  have c: "CharField (JStr t) = Inl ''blank''"
    using assms(2) unfolding CharField_def by simp
  have r: "run_field partial CharField (map_of d ''description'') = Fail ''blank''"
    unfolding assms(1) by (simp only: run_field.simps c sum.case)
  define es where "es = field_errors ''business_user''
       (run_field partial (PrimaryKeyRelatedField lx (users s)) (map_of d ''business_user''))
     @ field_errors ''rating'' (run_field partial (IntegerField lx (Some 1) (Some 5)) (map_of d ''rating''))
     @ field_errors ''description'' (run_field partial CharField (map_of d ''description''))"
  have m: "(''description'', ''blank'') \<in> set es"
    unfolding es_def r by (simp only: field_errors.simps set_append Un_iff list.set insert_iff simp_thms)
  then have "es \<noteq> []" by (cases es) simp_all
  with es_def [symmetric] have "ReviewSerializer_to_internal_value lx s partial d = Inl (ValidationError (Dict es))"
    by (rule to_internal_value_errors)
  with m show ?thesis by (intro exI conjI)
qed

lemma strip_Good: "strip ''Good'' = ''Good''"
  by (simp add: strip_def is_space_def)

lemma to_internal_value_example:
  "ReviewSerializer_to_internal_value lx s False (review_data 1 4 ''Good'')
   = (if 1 \<in> set (users s)
      then Inr \<lparr> ra_business_user = Some 1, ra_rating = Some 4, ra_description = Some ''Good'' \<rparr>
      else Inl (ValidationError (Dict [(''business_user'', ''does_not_exist'')])))"
  by (simp add: ReviewSerializer_to_internal_value_def review_data_def user_with_pk_def
      bounds_def CharField_def strip_Good)

lemma profile_example:
  "user_profile store1 (Suc 0) = Some \<lparr> p_user = 1, p_type = ''business'' \<rparr>
   \<and> user_profile store_reviewed (Suc 0) = Some \<lparr> p_user = 1, p_type = ''business'' \<rparr>
   \<and> users store1 = [1, 2] \<and> users store_reviewed = [1, 2]
   \<and> reviews store1 = [] \<and> reviews store_reviewed = [review1]"
  by (simp add: user_profile_def store_reviewed_def store1_def)

lemma save_example:
  "ReviewSerializer_save lexical0 store1 (Some 2) 2 (review_data 1 4 ''Good'')
   = (Inr review1, store_reviewed)"
  unfolding ReviewSerializer_save_def ReviewSerializer_run_validation_def to_internal_value_example
  by (simp add: profile_example ReviewSerializer_validate_def
      Review_objects_create_def fresh_def review1_def store_reviewed_def Let_def)

lemma save_again_example:
  "ReviewSerializer_save lexical0 store_reviewed (Some 2) 2 (review_data 1 4 ''Good'')
   = (Inl DuplicateReview, store_reviewed)"
  unfolding ReviewSerializer_save_def ReviewSerializer_run_validation_def to_internal_value_example
  by (simp add: profile_example ReviewSerializer_validate_def review1_def Let_def)


lemma value_of_absent: "value_of (run_field partial field None) = None"
  by simp

lemma value_of_present:
  "\<forall>c. run_field partial field (Some j) \<noteq> Fail c
   \<Longrightarrow> \<exists>x. value_of (run_field partial field (Some j)) = Some x"
  by (cases j) (simp_all split: sum.splits)

lemma accepted_keys:
  assumes "ReviewSerializer_to_internal_value lx s partial d = Inr attrs"
  shows "(map_of d ''rating'' = None \<longrightarrow> ra_rating attrs = None)
       \<and> (map_of d ''rating'' \<noteq> None \<longrightarrow> (\<exists>r. ra_rating attrs = Some r))
       \<and> (map_of d ''description'' = None \<longrightarrow> ra_description attrs = None)
       \<and> (map_of d ''description'' \<noteq> None \<longrightarrow> (\<exists>t. ra_description attrs = Some t))
       \<and> (map_of d ''business_user'' = None \<longrightarrow> ra_business_user attrs = None)"
proof -
  note f = to_internal_value_Inr [OF assms]
  have 1: "map_of d ''rating'' = None \<longrightarrow> ra_rating attrs = None"
    using f by (simp add: value_of_absent)
  have 2: "map_of d ''rating'' \<noteq> None \<longrightarrow> (\<exists>r. ra_rating attrs = Some r)"
  proof
    assume "map_of d ''rating'' \<noteq> None"
    then obtain j where j: "map_of d ''rating'' = Some j" by blast
    have "\<forall>c. run_field partial (IntegerField lx (Some 1) (Some 5)) (Some j) \<noteq> Fail c"
      using f j by simp
    then have "\<exists>x. value_of (run_field partial (IntegerField lx (Some 1) (Some 5)) (Some j)) = Some x"
      by (rule value_of_present)
    then show "\<exists>r. ra_rating attrs = Some r" using f j by simp
  qed
  have 3: "map_of d ''description'' = None \<longrightarrow> ra_description attrs = None"
    using f by (simp add: value_of_absent)
  have 4: "map_of d ''description'' \<noteq> None \<longrightarrow> (\<exists>t. ra_description attrs = Some t)"
  proof
    assume "map_of d ''description'' \<noteq> None"
    then obtain j where j: "map_of d ''description'' = Some j" by blast
    have "\<forall>c. run_field partial CharField (Some j) \<noteq> Fail c"
      using f j by simp
    then have "\<exists>x. value_of (run_field partial CharField (Some j)) = Some x"
      by (rule value_of_present)
    then show "\<exists>t. ra_description attrs = Some t" using f j by simp
  qed
  have 5: "map_of d ''business_user'' = None \<longrightarrow> ra_business_user attrs = None"
    using f by (simp add: value_of_absent)
  show ?thesis using 1 2 3 4 5 by (intro conjI)
qed

lemma save_Inl:
  assumes "ReviewSerializer_save lx s user reviewer d = (Inl e, s')"
  shows "s' = s \<and> ReviewSerializer_run_validation lx s user False d = Inl e"
proof (cases "ReviewSerializer_run_validation lx s user False d")
  case (Inl e')
  then show ?thesis using assms by (simp add: ReviewSerializer_save_def)
next
  case (Inr a)
  then show ?thesis using assms
    by (simp add: ReviewSerializer_save_def Review_objects_create_def Let_def)
qed

lemma save_Inr:
  assumes "ReviewSerializer_save lx s user reviewer d = (Inr row, s')"
  shows "\<exists>attrs. ReviewSerializer_run_validation lx s user False d = Inr attrs
           \<and> Review_objects_create s reviewer attrs = (row, s')"
proof (cases "ReviewSerializer_run_validation lx s user False d")
  case (Inl e')
  then show ?thesis using assms by (simp add: ReviewSerializer_save_def)
next
  case (Inr a)
  then show ?thesis using assms
    by (auto simp: ReviewSerializer_save_def split: prod.splits)
qed

lemma patch_save_Inl:
  assumes "ReviewPatchSerializer_save lx s instance partial d = (Inl e, s')"
  shows "s' = s \<and> ReviewPatchSerializer_run_validation lx s partial d = Inl e"
proof (cases "ReviewPatchSerializer_run_validation lx s partial d")
  case (Inl e')
  then show ?thesis using assms by (simp add: ReviewPatchSerializer_save_def)
next
  case (Inr a)
  then show ?thesis using assms by (simp add: ReviewPatchSerializer_save_def Let_def)
qed

lemma patch_save_Inr:
  assumes "ReviewPatchSerializer_save lx s instance partial d = (Inr row, s')"
  shows "\<exists>attrs. ReviewPatchSerializer_run_validation lx s partial d = Inr attrs
           \<and> row = review_setattrs instance attrs \<and> s' = Review_save s row"
proof (cases "ReviewPatchSerializer_run_validation lx s partial d")
  case (Inl e')
  then show ?thesis using assms by (simp add: ReviewPatchSerializer_save_def)
next
  case (Inr a)
  then show ?thesis using assms by (auto simp: ReviewPatchSerializer_save_def Let_def)
qed

lemma created_row:
  assumes "ReviewSerializer_save lx s user reviewer d = (Inr row, s')"
  shows "1 \<le> r_rating row \<and> r_rating row \<le> 5 \<and> r_description row \<noteq> []
         \<and> s' = s\<lparr> reviews := reviews s @ [row] \<rparr>"
proof -
  obtain attrs where a: "ReviewSerializer_run_validation lx s user False d = Inr attrs"
      "Review_objects_create s reviewer attrs = (row, s')"
    using save_Inr [OF assms] by blast
  have t: "ReviewSerializer_to_internal_value lx s False d = Inr attrs"
    using a(1) by (rule run_validation_Inr)
  obtain r x where rx: "ra_rating attrs = Some r" "ra_description attrs = Some x"
    using accepted_fields_create [OF t] by blast
  have "1 \<le> r \<and> r \<le> 5" using t rx(1) by (rule accepted_rating)
  moreover have "x \<noteq> []" using t rx(2) by (rule accepted_description)
  moreover have "r_rating row = r \<and> r_description row = x \<and> s' = s\<lparr> reviews := reviews s @ [row] \<rparr>"
    using a(2) rx by (auto simp: Review_objects_create_def Let_def)
  ultimately show ?thesis by simp
qed

lemma patched_row:
  assumes "ReviewPatchSerializer_save lx s instance partial d = (Inr row, s')"
  shows "(map_of d ''rating'' = None \<longrightarrow> r_rating row = r_rating instance)
       \<and> (map_of d ''rating'' \<noteq> None \<longrightarrow> 1 \<le> r_rating row \<and> r_rating row \<le> 5)
       \<and> (map_of d ''description'' = None \<longrightarrow> r_description row = r_description instance)
       \<and> (map_of d ''description'' \<noteq> None \<longrightarrow> r_description row \<noteq> [])
       \<and> s' = Review_save s row"
proof -
  obtain attrs where a: "ReviewPatchSerializer_run_validation lx s partial d = Inr attrs"
      "row = review_setattrs instance attrs" "s' = Review_save s row"
    using patch_save_Inr [OF assms] by blast
  have t: "ReviewSerializer_to_internal_value lx s partial d = Inr attrs"
    using a(1) by (rule patch_run_validation_Inr)
  note k = accepted_keys [OF t]
  have 1: "map_of d ''rating'' = None \<longrightarrow> r_rating row = r_rating instance"
    using k a(2) by (simp add: review_setattrs_def)
  have 2: "map_of d ''rating'' \<noteq> None \<longrightarrow> 1 \<le> r_rating row \<and> r_rating row \<le> 5"
  proof
    assume "map_of d ''rating'' \<noteq> None"
    then obtain r where r: "ra_rating attrs = Some r" using k by blast
    then have "r_rating row = r" using a(2) by (simp add: review_setattrs_def)
    then show "1 \<le> r_rating row \<and> r_rating row \<le> 5"
      using accepted_rating [OF t r] by simp
  qed
  have 3: "map_of d ''description'' = None \<longrightarrow> r_description row = r_description instance"
    using k a(2) by (simp add: review_setattrs_def)
  have 4: "map_of d ''description'' \<noteq> None \<longrightarrow> r_description row \<noteq> []"
  proof
    assume "map_of d ''description'' \<noteq> None"
    then obtain x where x: "ra_description attrs = Some x" using k by blast
    then have "r_description row = x" using a(2) by (simp add: review_setattrs_def)
    then show "r_description row \<noteq> []"
      using accepted_description [OF t x] by simp
  qed
  show ?thesis using 1 2 3 4 a(3) by (intro conjI)
qed

lemma field_errors_rejected:
  assumes "ReviewSerializer_to_internal_value lx s partial d = Inl e"
  shows "ReviewSerializer_run_validation lx s user partial d = Inl e
       \<and> ReviewPatchSerializer_run_validation lx s partial d = Inl e"
  using assms
  by (simp add: ReviewSerializer_run_validation_def ReviewPatchSerializer_run_validation_def)

lemma rejected_saves:
  "ReviewSerializer_run_validation lx s user False d = Inl e
     \<Longrightarrow> ReviewSerializer_save lx s user reviewer d = (Inl e, s)"
  "ReviewPatchSerializer_run_validation lx s partial d = Inl e
     \<Longrightarrow> ReviewPatchSerializer_save lx s instance partial d = (Inl e, s)"
  by (simp_all add: ReviewSerializer_save_def ReviewPatchSerializer_save_def)


lemma rating_rejected_saves:
  assumes "map_of d ''rating'' = Some (JInt n)" "n < 1 \<or> 5 < n"
  shows "(\<exists>es. (''rating'', if 5 < n then ''max_value'' else ''min_value'') \<in> set es
            \<and> ReviewSerializer_save lx s user reviewer d = (Inl (ValidationError (Dict es)), s))
       \<and> (\<exists>es. (''rating'', if 5 < n then ''max_value'' else ''min_value'') \<in> set es
            \<and> ReviewPatchSerializer_save lx s instance partial d
                = (Inl (ValidationError (Dict es)), s))"
proof (intro conjI)
  obtain es where es: "ReviewSerializer_to_internal_value lx s False d = Inl (ValidationError (Dict es))"
      "(''rating'', if 5 < n then ''max_value'' else ''min_value'') \<in> set es"
    using rating_rejected [OF assms, of lx s False] by blast
  have "ReviewSerializer_save lx s user reviewer d = (Inl (ValidationError (Dict es)), s)"
    using field_errors_rejected [OF es(1)] rejected_saves(1) by blast
  then show "\<exists>es. (''rating'', if 5 < n then ''max_value'' else ''min_value'') \<in> set es
            \<and> ReviewSerializer_save lx s user reviewer d = (Inl (ValidationError (Dict es)), s)"
    using es(2) by blast
  obtain es' where es': "ReviewSerializer_to_internal_value lx s partial d = Inl (ValidationError (Dict es'))"
      "(''rating'', if 5 < n then ''max_value'' else ''min_value'') \<in> set es'"
    using rating_rejected [OF assms, of lx s partial] by blast
  have "ReviewPatchSerializer_save lx s instance partial d = (Inl (ValidationError (Dict es')), s)"
    using field_errors_rejected [OF es'(1)] rejected_saves(2) by blast
  then show "\<exists>es. (''rating'', if 5 < n then ''max_value'' else ''min_value'') \<in> set es
            \<and> ReviewPatchSerializer_save lx s instance partial d
                = (Inl (ValidationError (Dict es)), s)"
    using es'(2) by blast
qed

lemma description_rejected_saves:
  assumes "map_of d ''description'' = Some (JStr t)" "strip t = []"
  shows "(\<exists>es. (''description'', ''blank'') \<in> set es
            \<and> ReviewSerializer_save lx s user reviewer d = (Inl (ValidationError (Dict es)), s))
       \<and> (\<exists>es. (''description'', ''blank'') \<in> set es
            \<and> ReviewPatchSerializer_save lx s instance partial d
                = (Inl (ValidationError (Dict es)), s))"
proof (intro conjI)
  obtain es where es: "ReviewSerializer_to_internal_value lx s False d = Inl (ValidationError (Dict es))"
      "(''description'', ''blank'') \<in> set es"
    using description_rejected [OF assms, of lx s False] by blast
  have "ReviewSerializer_save lx s user reviewer d = (Inl (ValidationError (Dict es)), s)"
    using field_errors_rejected [OF es(1)] rejected_saves(1) by blast
  then show "\<exists>es. (''description'', ''blank'') \<in> set es
            \<and> ReviewSerializer_save lx s user reviewer d = (Inl (ValidationError (Dict es)), s)"
    using es(2) by blast
  obtain es' where es': "ReviewSerializer_to_internal_value lx s partial d = Inl (ValidationError (Dict es'))"
      "(''description'', ''blank'') \<in> set es'"
    using description_rejected [OF assms, of lx s partial] by blast
  have "ReviewPatchSerializer_save lx s instance partial d = (Inl (ValidationError (Dict es')), s)"
    using field_errors_rejected [OF es'(1)] rejected_saves(2) by blast
  then show "\<exists>es. (''description'', ''blank'') \<in> set es
            \<and> ReviewPatchSerializer_save lx s instance partial d
                = (Inl (ValidationError (Dict es)), s)"
    using es'(2) by blast
qed

text \<open>
  Claim C9. A Review is created or patched only with a rating from 1 to 5 and a
  description that is not empty. The row a creation writes has such a rating and such a
  description; in the row a patch writes, a rating the request supplies is within 1 and 5
  and a description it supplies is not empty, and a field it does not supply is as before.
  A rating given as a number below 1 or above 5 is refused with the error \<^verbatim>\<open>min_value\<close> or
  \<^verbatim>\<open>max_value\<close> on \<^verbatim>\<open>rating\<close>, a description that is empty once stripped with the error
  \<^verbatim>\<open>blank\<close> on \<^verbatim>\<open>description\<close>, both in a \<^verbatim>\<open>ValidationError\<close>. A refused request, whatever
  the reason, leaves the store as it was.
\<close>

theorem Review_rating_and_description:
  "(ReviewSerializer_save lx s user reviewer d = (Inr row, s') \<longrightarrow>
      1 \<le> r_rating row \<and> r_rating row \<le> 5 \<and> r_description row \<noteq> []
      \<and> s' = s\<lparr> reviews := reviews s @ [row] \<rparr>)
   \<and> (ReviewPatchSerializer_save lx s instance partial d = (Inr row, s') \<longrightarrow>
      (map_of d ''rating'' = None \<longrightarrow> r_rating row = r_rating instance)
      \<and> (map_of d ''rating'' \<noteq> None \<longrightarrow> 1 \<le> r_rating row \<and> r_rating row \<le> 5)
      \<and> (map_of d ''description'' = None \<longrightarrow> r_description row = r_description instance)
      \<and> (map_of d ''description'' \<noteq> None \<longrightarrow> r_description row \<noteq> [])
      \<and> s' = Review_save s row)
   \<and> (map_of d ''rating'' = Some (JInt n) \<and> (n < 1 \<or> 5 < n) \<longrightarrow>
      (\<exists>es. (''rating'', if 5 < n then ''max_value'' else ''min_value'') \<in> set es
            \<and> ReviewSerializer_save lx s user reviewer d = (Inl (ValidationError (Dict es)), s))
      \<and> (\<exists>es. (''rating'', if 5 < n then ''max_value'' else ''min_value'') \<in> set es
            \<and> ReviewPatchSerializer_save lx s instance partial d
                = (Inl (ValidationError (Dict es)), s)))
   \<and> (map_of d ''description'' = Some (JStr t) \<and> strip t = [] \<longrightarrow>
      (\<exists>es. (''description'', ''blank'') \<in> set es
            \<and> ReviewSerializer_save lx s user reviewer d = (Inl (ValidationError (Dict es)), s))
      \<and> (\<exists>es. (''description'', ''blank'') \<in> set es
            \<and> ReviewPatchSerializer_save lx s instance partial d
                = (Inl (ValidationError (Dict es)), s)))
   \<and> (ReviewSerializer_save lx s user reviewer d = (Inl e, s') \<longrightarrow> s' = s)
   \<and> (ReviewPatchSerializer_save lx s instance partial d = (Inl e, s') \<longrightarrow> s' = s)"
proof (intro conjI impI)
  assume "ReviewSerializer_save lx s user reviewer d = (Inr row, s')"
  note c = created_row [OF this]
  show "1 \<le> r_rating row" "r_rating row \<le> 5" "r_description row \<noteq> []"
       "s' = s\<lparr> reviews := reviews s @ [row] \<rparr>"
    using c by blast+
next
  assume a: "ReviewPatchSerializer_save lx s instance partial d = (Inr row, s')"
  note c = patched_row [OF a]
  show "s' = Review_save s row" using c by blast
  { assume "map_of d ''rating'' = None"
    then show "r_rating row = r_rating instance" using c by blast }
  { assume "map_of d ''rating'' \<noteq> None"
    then show "1 \<le> r_rating row" "r_rating row \<le> 5" using c by blast+ }
  { assume "map_of d ''description'' = None"
    then show "r_description row = r_description instance" using c by blast }
  { assume "map_of d ''description'' \<noteq> None"
    then show "r_description row \<noteq> []" using c by blast }
next
  assume a: "map_of d ''rating'' = Some (JInt n) \<and> (n < 1 \<or> 5 < n)"
  then have 1: "map_of d ''rating'' = Some (JInt n)" and 2: "n < 1 \<or> 5 < n" by blast+
  note c = rating_rejected_saves [OF 1 2]
  show "\<exists>es. (''rating'', if 5 < n then ''max_value'' else ''min_value'') \<in> set es
            \<and> ReviewSerializer_save lx s user reviewer d = (Inl (ValidationError (Dict es)), s)"
    using c by (rule conjunct1)
  show "\<exists>es. (''rating'', if 5 < n then ''max_value'' else ''min_value'') \<in> set es
            \<and> ReviewPatchSerializer_save lx s instance partial d
                = (Inl (ValidationError (Dict es)), s)"
    using c by (rule conjunct2)
next
  assume a: "map_of d ''description'' = Some (JStr t) \<and> strip t = []"
  then have 1: "map_of d ''description'' = Some (JStr t)" and 2: "strip t = []" by blast+
  note c = description_rejected_saves [OF 1 2]
  show "\<exists>es. (''description'', ''blank'') \<in> set es
            \<and> ReviewSerializer_save lx s user reviewer d = (Inl (ValidationError (Dict es)), s)"
    using c by (rule conjunct1)
  show "\<exists>es. (''description'', ''blank'') \<in> set es
            \<and> ReviewPatchSerializer_save lx s instance partial d
                = (Inl (ValidationError (Dict es)), s)"
    using c by (rule conjunct2)
next
  assume "ReviewSerializer_save lx s user reviewer d = (Inl e, s')"
  then show "s' = s" using save_Inl by blast
next
  assume "ReviewPatchSerializer_save lx s instance partial d = (Inl e, s')"
  then show "s' = s" using patch_save_Inl by blast
qed


theorem Review_rating_and_description_witness:
  "ReviewSerializer_save lexical0 store1 (Some 2) 2 (review_data 1 4 ''Good'') = (Inr review1, store_reviewed)
   \<and> 1 \<le> r_rating review1 \<and> r_rating review1 \<le> 5 \<and> r_description review1 \<noteq> []
   \<and> (\<exists>es. (''rating'', ''max_value'') \<in> set es
         \<and> ReviewSerializer_save lexical0 store1 (Some 2) 2 (review_data 1 9 ''Good'')
             = (Inl (ValidationError (Dict es)), store1))"
proof -
  have a: "1 \<le> r_rating review1 \<and> r_rating review1 \<le> 5 \<and> r_description review1 \<noteq> []
           \<and> store_reviewed = store1\<lparr> reviews := reviews store1 @ [review1] \<rparr>"
    using Review_rating_and_description [where lx = lexical0 and s = store1 and user = "Some 2"
        and reviewer = 2 and d = "review_data 1 4 ''Good''" and row = review1 and s' = store_reviewed,
        THEN conjunct1, THEN mp, OF save_example] .
  have h: "map_of (review_data 1 9 ''Good'') ''rating'' = Some (JInt 9) \<and> ((9::int) < 1 \<or> 5 < (9::int))"
    by (simp add: review_data_def)
  have b: "\<exists>es. (''rating'', if 5 < (9::int) then ''max_value'' else ''min_value'') \<in> set es
         \<and> ReviewSerializer_save lexical0 store1 (Some 2) 2 (review_data 1 9 ''Good'')
             = (Inl (ValidationError (Dict es)), store1)"
    using Review_rating_and_description [where lx = lexical0 and s = store1 and user = "Some 2"
        and reviewer = 2 and d = "review_data 1 9 ''Good''" and n = 9,
        THEN conjunct2, THEN conjunct2, THEN conjunct1, THEN mp, OF h, THEN conjunct1] .
  have "(if 5 < (9::int) then ''max_value'' else ''min_value'') = ''max_value''" by simp
  then have b': "\<exists>es. (''rating'', ''max_value'') \<in> set es
         \<and> ReviewSerializer_save lexical0 store1 (Some 2) 2 (review_data 1 9 ''Good'')
             = (Inl (ValidationError (Dict es)), store1)"
    using b by simp
  show ?thesis using save_example a b' by blast
qed

lemma validate_without_user:
  assumes "ra_business_user attrs = Some b" "user_profile s b = Some p" "p_type p = ''business''"
  shows "ReviewSerializer_validate s None attrs = Inr attrs"
  using assms by (simp add: ReviewSerializer_validate_def)

text \<open>
  Claim C10. When the context carries no user, \<^verbatim>\<open>validate\<close> does not look for an earlier
  Review: for a target with a business profile it returns the data, whatever reviews the
  store holds, also one by the same reviewer for the same target. A request whose fields
  are valid is then saved as one more row, for the reviewer the view hands to \<^verbatim>\<open>save\<close>.
\<close>

theorem ReviewSerializer_validate_without_user:
  assumes "ra_business_user attrs = Some b"
      and "user_profile s b = Some p"
      and "p_type p = ''business''"
  shows "ReviewSerializer_validate s None attrs = Inr attrs
       \<and> (ReviewSerializer_to_internal_value lx s False d = Inr attrs \<longrightarrow>
            (\<exists>row. ReviewSerializer_save lx s None reviewer d
                     = (Inr row, s\<lparr> reviews := reviews s @ [row] \<rparr>)
                  \<and> r_reviewer row = reviewer \<and> r_business_user row = b))"
proof (intro conjI impI)
  show v: "ReviewSerializer_validate s None attrs = Inr attrs"
    using assms by (rule validate_without_user)
  assume "ReviewSerializer_to_internal_value lx s False d = Inr attrs"
  then have "ReviewSerializer_run_validation lx s None False d = Inr attrs"
    using v by (simp add: ReviewSerializer_run_validation_def)
  then show "\<exists>row. ReviewSerializer_save lx s None reviewer d
                     = (Inr row, s\<lparr> reviews := reviews s @ [row] \<rparr>)
                  \<and> r_reviewer row = reviewer \<and> r_business_user row = b"
    using assms(1) by (simp add: ReviewSerializer_save_def Review_objects_create_def Let_def)
qed

theorem ReviewSerializer_validate_without_user_witness:
  "reviews store_reviewed = [review1] \<and> r_reviewer review1 = 2 \<and> r_business_user review1 = 1
   \<and> ReviewSerializer_validate store_reviewed None
        \<lparr> ra_business_user = Some 1, ra_rating = Some 4, ra_description = Some ''Good'' \<rparr>
      = Inr \<lparr> ra_business_user = Some 1, ra_rating = Some 4, ra_description = Some ''Good'' \<rparr>
   \<and> ReviewSerializer_validate store_reviewed (Some 2)
        \<lparr> ra_business_user = Some 1, ra_rating = Some 4, ra_description = Some ''Good'' \<rparr>
      = Inl DuplicateReview"
proof -
  let ?attrs = "\<lparr> ra_business_user = Some 1, ra_rating = Some 4, ra_description = Some ''Good'' \<rparr>"
  have 1: "ra_business_user ?attrs = Some 1" by simp
  have 2: "user_profile store_reviewed 1 = Some \<lparr> p_user = 1, p_type = ''business'' \<rparr>"
    using profile_example by simp
  have 3: "p_type \<lparr> p_user = 1, p_type = ''business'' \<rparr> = ''business''" by simp
  have a: "ReviewSerializer_validate store_reviewed None ?attrs = Inr ?attrs"
    using ReviewSerializer_validate_without_user [OF 1 2 3, THEN conjunct1] .
  have b: "ReviewSerializer_validate store_reviewed (Some 2) ?attrs = Inl DuplicateReview"
    using 2 by (simp add: ReviewSerializer_validate_def profile_example review1_def)
  have c: "reviews store_reviewed = [review1] \<and> r_reviewer review1 = 2 \<and> r_business_user review1 = 1"
    by (simp add: profile_example review1_def)
  show ?thesis using a b c by blast
qed

lemma to_internal_value_Inl:
  "ReviewSerializer_to_internal_value lx s partial d = Inl e \<Longrightarrow> \<exists>es. e = ValidationError (Dict es)"
  by (auto simp add: ReviewSerializer_to_internal_value_def Let_def split: if_splits)

lemma run_field_Inr: "field j = Inr x \<Longrightarrow> j \<noteq> JNull \<Longrightarrow> run_field partial field (Some j) = Value x"
  by (cases j) simp_all

lemma accepted_business_user:
  assumes "ReviewSerializer_to_internal_value lx s partial d = Inr attrs"
      and "map_of d ''business_user'' = Some j"
      and "PrimaryKeyRelatedField lx (users s) j = Inr b"
  shows "ra_business_user attrs = Some b"
proof -
  have "j \<noteq> JNull" using assms(3) by (cases j) simp_all
  then have "run_field partial (PrimaryKeyRelatedField lx (users s)) (Some j) = Value b"
    using assms(3) by (simp add: run_field_Inr)
  then show ?thesis using to_internal_value_Inr [OF assms(1)] assms(2) by simp
qed

lemma validate_duplicate:
  assumes "\<exists>r\<in>set (reviews s). r_reviewer r = u \<and> r_business_user r = b"
      and "ra_business_user attrs = Some b"
  shows "ReviewSerializer_validate s (Some u) attrs = Inl TargetNotBusiness
       \<or> ReviewSerializer_validate s (Some u) attrs = Inl DuplicateReview"
proof -
  have "filter (\<lambda>r. r_reviewer r = u \<and> Some (r_business_user r) = Some b) (reviews s) \<noteq> []"
    using assms(1) by (auto simp: filter_empty_conv)
  then show ?thesis using assms(2) by (simp add: ReviewSerializer_validate_def)
qed

lemma validate_duplicate_business:
  assumes "\<exists>r\<in>set (reviews s). r_reviewer r = u \<and> r_business_user r = b"
      and "ra_business_user attrs = Some b"
      and "user_profile s b = Some p" "p_type p = ''business''"
  shows "ReviewSerializer_validate s (Some u) attrs = Inl DuplicateReview"
proof -
  have "filter (\<lambda>r. r_reviewer r = u \<and> Some (r_business_user r) = Some b) (reviews s) \<noteq> []"
    using assms(1) by (auto simp: filter_empty_conv)
  then show ?thesis using assms(2,3,4) by (simp add: ReviewSerializer_validate_def)
qed

lemma second_review_rejected:
  assumes "\<exists>r\<in>set (reviews s). r_reviewer r = u \<and> r_business_user r = b"
      and "map_of d ''business_user'' = Some j"
      and "PrimaryKeyRelatedField lx (users s) j = Inr b"
  shows "\<exists>e. ReviewSerializer_save lx s (Some u) reviewer d = (Inl (ValidationError e), s)"
proof (cases "ReviewSerializer_to_internal_value lx s False d")
  case (Inl e)
  then obtain es where "e = ValidationError (Dict es)" using to_internal_value_Inl by blast
  then have "ReviewSerializer_save lx s (Some u) reviewer d = (Inl (ValidationError (Dict es)), s)"
    using field_errors_rejected [OF Inl] rejected_saves(1) by blast
  then show ?thesis by blast
next
  case (Inr attrs)
  have b: "ra_business_user attrs = Some b"
    using Inr assms(2,3) by (rule accepted_business_user)
  have r: "ReviewSerializer_run_validation lx s (Some u) False d = ReviewSerializer_validate s (Some u) attrs"
    using Inr by (simp add: ReviewSerializer_run_validation_def)
  from validate_duplicate [OF assms(1) b]
  have "\<exists>e. ReviewSerializer_run_validation lx s (Some u) False d = Inl (ValidationError e)"
    unfolding r by blast
  then obtain e where "ReviewSerializer_run_validation lx s (Some u) False d = Inl (ValidationError e)"
    by blast
  then have "ReviewSerializer_save lx s (Some u) reviewer d = (Inl (ValidationError e), s)"
    by (rule rejected_saves(1))
  then show ?thesis by blast
qed

lemma second_review_duplicate:
  assumes "\<exists>r\<in>set (reviews s). r_reviewer r = u \<and> r_business_user r = b"
      and "map_of d ''business_user'' = Some j"
      and "PrimaryKeyRelatedField lx (users s) j = Inr b"
      and "ReviewSerializer_to_internal_value lx s False d = Inr attrs"
      and "user_profile s b = Some p" "p_type p = ''business''"
  shows "ReviewSerializer_save lx s (Some u) reviewer d = (Inl DuplicateReview, s)"
proof -
  have b: "ra_business_user attrs = Some b"
    using assms(4,2,3) by (rule accepted_business_user)
  have "ReviewSerializer_run_validation lx s (Some u) False d = ReviewSerializer_validate s (Some u) attrs"
    using assms(4) by (simp add: ReviewSerializer_run_validation_def)
  then have "ReviewSerializer_run_validation lx s (Some u) False d = Inl DuplicateReview"
    using validate_duplicate_business [OF assms(1) b assms(5,6)] by simp
  then show ?thesis by (rule rejected_saves(1))
qed

lemma run_validation_validate:
  assumes "ReviewSerializer_run_validation lx s user partial d = Inr attrs"
  shows "ReviewSerializer_validate s user attrs = Inr attrs"
  using assms run_validation_Inr [OF assms] by (simp add: ReviewSerializer_run_validation_def)

lemma validate_accepts_new_pair:
  assumes "ReviewSerializer_validate s (Some v) attrs = Inr attrs" "ra_business_user attrs = Some b"
  shows "(v, b) \<notin> set (map (\<lambda>r. (r_reviewer r, r_business_user r)) (reviews s))"
proof
  assume "(v, b) \<in> set (map (\<lambda>r. (r_reviewer r, r_business_user r)) (reviews s))"
  then have "\<exists>r\<in>set (reviews s). r_reviewer r = v \<and> r_business_user r = b" by auto
  from validate_duplicate [OF this assms(2)] show False using assms(1) by simp
qed

lemma one_review_per_pair:
  assumes "distinct (map (\<lambda>r. (r_reviewer r, r_business_user r)) (reviews s))"
  shows "distinct (map (\<lambda>r. (r_reviewer r, r_business_user r))
           (reviews (snd (ReviewSerializer_save lx s (Some v) v d))))"
proof -
  obtain res s' where sv: "ReviewSerializer_save lx s (Some v) v d = (res, s')"
    by (meson surj_pair)
  have "distinct (map (\<lambda>r. (r_reviewer r, r_business_user r)) (reviews s'))"
  proof (cases res)
    case (Inl e)
    then have "s' = s" using sv save_Inl by blast
    then show ?thesis using assms by simp
  next
    case (Inr row)
    then have sr: "ReviewSerializer_save lx s (Some v) v d = (Inr row, s')" using sv by simp
    then obtain attrs where a: "ReviewSerializer_run_validation lx s (Some v) False d = Inr attrs"
        "Review_objects_create s v attrs = (row, s')"
      using save_Inr by blast
    have t: "ReviewSerializer_to_internal_value lx s False d = Inr attrs"
      using a(1) by (rule run_validation_Inr)
    obtain b where b: "ra_business_user attrs = Some b"
      using accepted_fields_create [OF t] by blast
    have n: "(v, b) \<notin> set (map (\<lambda>r. (r_reviewer r, r_business_user r)) (reviews s))"
      using run_validation_validate [OF a(1)] b by (rule validate_accepts_new_pair)
    have s': "s' = s\<lparr> reviews := reviews s @ [row] \<rparr>"
      using created_row [OF sr] by blast
    have "r_reviewer row = v \<and> r_business_user row = b"
      using a(2) b by (auto simp: Review_objects_create_def Let_def)
    then show ?thesis using assms n s' by simp
  qed
  then show ?thesis using sv by simp
qed

text \<open>
  Claim C6, as stated, fails on the kind of the error. The reviewer 2 has a review of the
  business user 1 and asks for another: the request is refused and the store is as it
  was, but the error is a \<^verbatim>\<open>serializers.ValidationError\<close>, of the validation kind, and not
  a conflict.
\<close>

theorem ReviewSerializer_duplicate_counterexample:
  "ReviewSerializer_save lexical0 store_reviewed (Some 2) 2 (review_data 1 4 ''Good'')
     = (Inl DuplicateReview, store_reviewed)
   \<and> (\<exists>r\<in>set (reviews store_reviewed). r_reviewer r = 2 \<and> r_business_user r = 1)
   \<and> kind_of DuplicateReview = Validation
   \<and> kind_of DuplicateReview \<noteq> Conflict"
  using save_again_example by (simp add: profile_example review1_def)

text \<open>
  Claim C6, amended. A request to create a Review, made by an authenticated user who
  already has a Review of the target the request names, is refused with a
  \<^verbatim>\<open>ValidationError\<close>, an error of the validation kind, and no row is created. When the
  fields of the request are valid and the target has a business profile, the error is the
  message \<^verbatim>\<open>You have already reviewed this business user.\<close>; otherwise it is the error of
  the fields or of the target. So, the reviewer of each request being its authenticated
  user, a table with at most one Review for each pair of reviewer and business user keeps
  at most one for each pair.
\<close>

theorem ReviewSerializer_rejects_second_review:
  assumes "\<exists>r\<in>set (reviews s). r_reviewer r = u \<and> r_business_user r = b"
      and "map_of d ''business_user'' = Some j"
      and "PrimaryKeyRelatedField lx (users s) j = Inr b"
  shows "(\<exists>e. ReviewSerializer_save lx s (Some u) reviewer d = (Inl (ValidationError e), s)
             \<and> kind_of (ValidationError e) = Validation)
       \<and> (\<forall>attrs p. ReviewSerializer_to_internal_value lx s False d = Inr attrs
             \<and> user_profile s b = Some p \<and> p_type p = ''business'' \<longrightarrow>
               ReviewSerializer_save lx s (Some u) reviewer d
                 = (Inl (ValidationError (Msg ''You have already reviewed this business user.'')), s))
       \<and> (\<forall>s0 v d0. distinct (map (\<lambda>r. (r_reviewer r, r_business_user r)) (reviews s0)) \<longrightarrow>
             distinct (map (\<lambda>r. (r_reviewer r, r_business_user r))
               (reviews (snd (ReviewSerializer_save lx s0 (Some v) v d0)))))"
proof (intro conjI allI impI)
  show "\<exists>e. ReviewSerializer_save lx s (Some u) reviewer d = (Inl (ValidationError e), s)
             \<and> kind_of (ValidationError e) = Validation"
    using second_review_rejected [OF assms] by simp
next
  fix attrs p
  assume "ReviewSerializer_to_internal_value lx s False d = Inr attrs
             \<and> user_profile s b = Some p \<and> p_type p = ''business''"
  then have 1: "ReviewSerializer_to_internal_value lx s False d = Inr attrs"
    and 2: "user_profile s b = Some p" and 3: "p_type p = ''business''" by blast+
  show "ReviewSerializer_save lx s (Some u) reviewer d
                 = (Inl (ValidationError (Msg ''You have already reviewed this business user.'')), s)"
    using assms 1 2 3 by (rule second_review_duplicate)
next
  fix s0 :: store and v d0
  assume "distinct (map (\<lambda>r. (r_reviewer r, r_business_user r)) (reviews s0))"
  then show "distinct (map (\<lambda>r. (r_reviewer r, r_business_user r))
               (reviews (snd (ReviewSerializer_save lx s0 (Some v) v d0))))"
    by (rule one_review_per_pair)
qed

theorem ReviewSerializer_rejects_second_review_witness:
  "(\<exists>e. ReviewSerializer_save lexical0 store_reviewed (Some 2) 2 (review_data 1 5 ''Again'')
          = (Inl (ValidationError e), store_reviewed))
   \<and> reviews store_reviewed = [review1]"
proof -
  have 1: "\<exists>r\<in>set (reviews store_reviewed). r_reviewer r = 2 \<and> r_business_user r = 1"
    by (simp add: profile_example review1_def)
  have 2: "map_of (review_data 1 5 ''Again'') ''business_user'' = Some (JInt 1)"
    by (simp add: review_data_def)
  have 3: "PrimaryKeyRelatedField lexical0 (users store_reviewed) (JInt 1) = Inr 1"
    by (simp add: profile_example user_with_pk_def)
  have "\<exists>e. ReviewSerializer_save lexical0 store_reviewed (Some 2) 2 (review_data 1 5 ''Again'')
          = (Inl (ValidationError e), store_reviewed) \<and> kind_of (ValidationError e) = Validation"
    using ReviewSerializer_rejects_second_review [OF 1 2 3, THEN conjunct1] .
  then show ?thesis by (auto simp: profile_example)
qed








lemma patch_field_errors_first:
  "ReviewPatchSerializer_run_validation lx s True [(''reviewer'', JInt 1), (''rating'', JInt 9)]
   = Inl (ValidationError (Dict [(''rating'', ''max_value'')]))"
  by (simp add: ReviewPatchSerializer_run_validation_def ReviewSerializer_to_internal_value_def
      bounds_def)




end
